theory Spec2Isabelle
  imports Main
begin

section \<open>The translate / synthesize / upload / transcribe pipeline of main.go\<close>

text \<open>
  The program reads the lines of \<^verbatim>\<open>./input.txt\<close>, and for every line that is not blank it
  calls Amazon Translate, appends the translation to a buffered writer over
  \<^verbatim>\<open>translated_text.txt\<close>, calls Amazon Polly, stores the audio stream in a local file,
  puts that file into an S3 bucket, removes the local file and starts a transcription job.
  Go strings are byte strings, modelled as \<^typ>\<open>string\<close> (a list of 8-bit characters).
\<close>

subsection \<open>Go errors\<close>

text \<open>A Go \<^verbatim>\<open>error\<close> value is modelled by the text its \<^verbatim>\<open>Error()\<close> method returns.\<close>

datatype error = Error string

fun error_text :: "error \<Rightarrow> string" where
  "error_text (Error m) = m"

subsection \<open>Clock readings and \<^verbatim>\<open>Time.Format\<close>\<close>

text \<open>
  A reading of \<^verbatim>\<open>time.Now()\<close> is kept as the wall-clock fields that \<^verbatim>\<open>Format\<close> prints
  (in the local zone), together with the nanoseconds inside the second.
\<close>

record time =
  year :: int
  month :: nat
  day :: nat
  hour :: nat
  minute :: nat
  second :: nat
  nanosecond :: nat

definition digit :: "nat \<Rightarrow> char" where
  "digit d = ''0123456789'' ! (d mod 10)"

fun dec_digits :: "nat \<Rightarrow> string" where
  "dec_digits n = (if n < 10 then [digit n] else dec_digits (n div 10) @ [digit (n mod 10)])"

declare dec_digits.simps [simp del]

text \<open>
  \<^verbatim>\<open>appendInt(b, x, width)\<close> of package time: a minus sign for a negative number, then
  the decimal digits, padded with zeros on the left up to \<^verbatim>\<open>width\<close> digits.
\<close>

definition appendInt :: "int \<Rightarrow> nat \<Rightarrow> string" where
  "appendInt x width =
     (let ds = dec_digits (nat \<bar>x\<bar>)
      in (if x < 0 then ''-'' else []) @ replicate (width - length ds) (CHR ''0'') @ ds)"

text \<open>
  The pieces of a layout that stand for a field of the time. Of the reference time
  \<^verbatim>\<open>01/02 03:04:05PM '06 -0700\<close>, the model knows the year, the month, the day, the hour,
  the minute and the second written in digits, which are all that the layout of this
  program uses. The other pieces of the library (names of months and days, the day of the
  year \<^verbatim>\<open>002\<close>, \<^verbatim>\<open>PM\<close>, zones, fractions of a second, padding with \<^verbatim>\<open>_\<close>) are not
  modelled: this model copies their characters.
\<close>

datatype std =
    stdLongYear | stdYear | stdNumMonth | stdZeroMonth | stdDay | stdZeroDay
  | stdHour | stdHour12 | stdZeroHour12 | stdMinute | stdZeroMinute | stdSecond | stdZeroSecond

text \<open>
  \<^verbatim>\<open>nextStdChunk\<close>: the literal text before the first piece, the piece, and the rest of the
  layout. The cases are tried in the order of the library's switch.
\<close>

fun nextStdChunk :: "string \<Rightarrow> string \<times> std option \<times> string" where
  "nextStdChunk [] = ([], None, [])"
| "nextStdChunk (c # cs) =
     (if c = CHR ''0'' \<and> cs \<noteq> [] \<and> hd cs \<in> set ''123456'' then
        ([], Some (if hd cs = CHR ''1'' then stdZeroMonth
                   else if hd cs = CHR ''2'' then stdZeroDay
                   else if hd cs = CHR ''3'' then stdZeroHour12
                   else if hd cs = CHR ''4'' then stdZeroMinute
                   else if hd cs = CHR ''5'' then stdZeroSecond
                   else stdYear), tl cs)
      else if c = CHR ''1'' then
        (if cs \<noteq> [] \<and> hd cs = CHR ''5'' then ([], Some stdHour, tl cs)
         else ([], Some stdNumMonth, cs))
      else if c = CHR ''2'' then
        (if take 3 cs = ''006'' then ([], Some stdLongYear, drop 3 cs)
         else ([], Some stdDay, cs))
      else if c = CHR ''3'' then ([], Some stdHour12, cs)
      else if c = CHR ''4'' then ([], Some stdMinute, cs)
      else if c = CHR ''5'' then ([], Some stdSecond, cs)
      else (case nextStdChunk cs of (prefix, s, suffix) \<Rightarrow> (c # prefix, s, suffix)))"

lemma nextStdChunk_shorter:
  "nextStdChunk layout = (prefix, Some s, suffix) \<Longrightarrow> length suffix < length layout"
proof (induction layout arbitrary: prefix)
  case Nil
  then show ?case by simp
next
  case (Cons c cs)
  then show ?case
    by (cases cs) (auto split: if_splits prod.splits)
qed

definition hour12 :: "nat \<Rightarrow> nat" where
  "hour12 h = (if h mod 12 = 0 then 12 else h mod 12)"

fun appendStd :: "std \<Rightarrow> time \<Rightarrow> string" where
  "appendStd stdLongYear t = appendInt (year t) 4"
| "appendStd stdYear t = appendInt ((if year t < 0 then 0 else year t) mod 100) 2"
| "appendStd stdNumMonth t = appendInt (int (month t)) 0"
| "appendStd stdZeroMonth t = appendInt (int (month t)) 2"
| "appendStd stdDay t = appendInt (int (day t)) 0"
| "appendStd stdZeroDay t = appendInt (int (day t)) 2"
| "appendStd stdHour t = appendInt (int (hour t)) 2"
| "appendStd stdHour12 t = appendInt (int (hour12 (hour t))) 0"
| "appendStd stdZeroHour12 t = appendInt (int (hour12 (hour t))) 2"
| "appendStd stdMinute t = appendInt (int (minute t)) 0"
| "appendStd stdZeroMinute t = appendInt (int (minute t)) 2"
| "appendStd stdSecond t = appendInt (int (second t)) 0"
| "appendStd stdZeroSecond t = appendInt (int (second t)) 2"

text \<open>\<^verbatim>\<open>t.Format(layout)\<close>: the loop over the chunks of the layout.\<close>

function Format :: "time \<Rightarrow> string \<Rightarrow> string" where
  "Format t layout =
     (if layout = [] then []
      else (case nextStdChunk layout of
              (prefix, None, suffix) \<Rightarrow> prefix
            | (prefix, Some s, suffix) \<Rightarrow> prefix @ appendStd s t @ Format t suffix))"
  by pat_completeness auto
termination
  by (relation "measure (\<lambda>(t, layout). length layout)")
    (auto dest: nextStdChunk_shorter [OF sym])

declare Format.simps [simp del]

subsection \<open>The generated names\<close>

text \<open>
  Line 134, \<^verbatim>\<open>"audioFile-" + time.Now().Format("20060102150405") + "-output.mp3"\<close>, and
  line 176, \<^verbatim>\<open>"transcription-job-" + time.Now().Format("20060102150405")\<close>, as functions
  of the clock reading.
\<close>

definition audioFileName :: "time \<Rightarrow> string" where
  "audioFileName now = ''audioFile-'' @ Format now ''20060102150405'' @ ''-output.mp3''"

definition transcriptionJobName :: "time \<Rightarrow> string" where
  "transcriptionJobName now = ''transcription-job-'' @ Format now ''20060102150405''"

text \<open>
  The format as the specification words it, \<^verbatim>\<open>YYYYMMDDHHMMSS\<close>: four decimal digits of
  the year, then two each of the month, the day, the hour, the minute and the second.
\<close>

definition digits2 :: "nat \<Rightarrow> string" where
  "digits2 n = [digit (n div 10), digit n]"

definition digits4 :: "nat \<Rightarrow> string" where
  "digits4 n = [digit (n div 1000), digit (n div 100), digit (n div 10), digit n]"

definition YYYYMMDDHHMMSS :: "time \<Rightarrow> string" where
  "YYYYMMDDHHMMSS t =
     digits4 (nat (year t)) @ digits2 (month t) @ digits2 (day t) @
     digits2 (hour t) @ digits2 (minute t) @ digits2 (second t)"

text \<open>The readings a clock can give: a date of the years 0 to 9999 and a time of day.\<close>

definition civil :: "time \<Rightarrow> bool" where
  "civil t \<longleftrightarrow>
     0 \<le> year t \<and> year t \<le> 9999 \<and> 1 \<le> month t \<and> month t \<le> 12 \<and>
     1 \<le> day t \<and> day t \<le> 31 \<and> hour t < 24 \<and> minute t < 60 \<and> second t < 60"

text \<open>\<^verbatim>\<open>t.Truncate(time.Second)\<close>: the reading at whole-second precision.\<close>

definition truncate_second :: "time \<Rightarrow> time" where
  "truncate_second t = t\<lparr>nanosecond := 0\<rparr>"

subsection \<open>\<^verbatim>\<open>strings.TrimSpace\<close>\<close>

text \<open>
  \<^verbatim>\<open>utf8.DecodeRuneInString\<close>: the first code point of a byte string and the number of bytes
  it takes; a byte that starts no well-formed encoding is the code point \<^verbatim>\<open>U+FFFD\<close> of width
  one. The ranges of the first and of the second byte are those of the library's tables.
\<close>

definition RuneError :: nat where
  "RuneError = 65533"

definition byte :: "char \<Rightarrow> nat" where
  "byte c = of_char c"

definition continuation :: "nat \<Rightarrow> bool" where
  "continuation b \<longleftrightarrow> 128 \<le> b \<and> b \<le> 191"

definition DecodeRuneInString :: "string \<Rightarrow> nat \<times> nat" where
  "DecodeRuneInString s =
     (case s of
        [] \<Rightarrow> (RuneError, 0)
      | c # cs \<Rightarrow>
          (let s0 = byte c in
           if s0 < 128 then (s0, 1)
           else if s0 < 194 \<or> 244 < s0 then (RuneError, 1)
           else
             (let sz = (if s0 < 224 then 2 else if s0 < 240 then 3 else 4 :: nat);
                  lo = (if s0 = 224 then 160 else if s0 = 240 then 144 else 128 :: nat);
                  hi = (if s0 = 237 then 159 else if s0 = 244 then 143 else 191 :: nat)
              in if length s < sz then (RuneError, 1)
                 else
                   (let s1 = byte (s ! 1) in
                    if s1 < lo \<or> hi < s1 then (RuneError, 1)
                    else if sz \<le> 2 then (s0 mod 32 * 64 + s1 mod 64, 2)
                    else
                      (let s2 = byte (s ! 2) in
                       if \<not> continuation s2 then (RuneError, 1)
                       else if sz \<le> 3 then
                         (s0 mod 16 * 4096 + s1 mod 64 * 64 + s2 mod 64, 3)
                       else
                         (let s3 = byte (s ! 3) in
                          if \<not> continuation s3 then (RuneError, 1)
                          else (s0 mod 8 * 262144 + s1 mod 64 * 4096 + s2 mod 64 * 64 +
                                s3 mod 64, 4)))))))"

text \<open>
  \<^verbatim>\<open>utf8.DecodeLastRuneInString\<close>: the last code point. The library steps back over at most
  three more bytes to the nearest byte that can start an encoding, decodes from there, and
  accepts the result only if it ends at the end of the string.
\<close>

definition RuneStart :: "nat \<Rightarrow> bool" where
  "RuneStart b \<longleftrightarrow> \<not> continuation b"

definition lastRuneStart :: "string \<Rightarrow> nat" where
  "lastRuneStart s =
     (let end = length s; lim = end - 4
      in case find (\<lambda>i. RuneStart (byte (s ! i))) (rev [lim ..< end - 1]) of
           Some i \<Rightarrow> i
         | None \<Rightarrow> lim - 1)"

definition DecodeLastRuneInString :: "string \<Rightarrow> nat \<times> nat" where
  "DecodeLastRuneInString s =
     (let end = length s in
      if end = 0 then (RuneError, 0)
      else if byte (s ! (end - 1)) < 128 then (byte (s ! (end - 1)), 1)
      else
        (let start = lastRuneStart s;
             (r, width) = DecodeRuneInString (drop start s)
         in if start + width \<noteq> end then (RuneError, 1) else (r, width)))"

text \<open>\<^verbatim>\<open>unicode.IsSpace\<close>: the white space of Latin-1 and the rest of the property White_Space.\<close>

definition IsSpace :: "nat \<Rightarrow> bool" where
  "IsSpace r \<longleftrightarrow>
     (if r \<le> 255 then r \<in> {9, 10, 11, 12, 13, 32, 133, 160}
      else r = 5760 \<or> (8192 \<le> r \<and> r \<le> 8202) \<or> r = 8232 \<or> r = 8233 \<or> r = 8239 \<or>
           r = 8287 \<or> r = 12288)"

lemma DecodeRuneInString_size: "s \<noteq> [] \<Longrightarrow> 0 < snd (DecodeRuneInString s)"
  unfolding DecodeRuneInString_def Let_def
  by (cases s) (simp_all)

lemma find_Some_in_set: "find P xs = Some x \<Longrightarrow> x \<in> set xs"
  by (induction xs) (auto split: if_splits)

lemma lastRuneStart_less: "s \<noteq> [] \<Longrightarrow> lastRuneStart s < length s"
proof (cases "find (\<lambda>i. RuneStart (byte (s ! i))) (rev [length s - 4 ..< length s - 1])")
  case None
  assume "s \<noteq> []"
  then show ?thesis using None by (simp add: lastRuneStart_def)
next
  case (Some i)
  then have "i \<in> set (rev [length s - 4 ..< length s - 1])"
    by (rule find_Some_in_set)
  then have "i < length s" by auto
  then show ?thesis using Some by (simp add: lastRuneStart_def)
qed

lemma DecodeLastRuneInString_size: "s \<noteq> [] \<Longrightarrow> 0 < snd (DecodeLastRuneInString s)"
  using lastRuneStart_less [of s]
  by (auto simp: DecodeLastRuneInString_def Let_def split: prod.splits)

lemma DecodeRuneInString_width:
  "(r, width) = DecodeRuneInString s \<Longrightarrow> s \<noteq> [] \<Longrightarrow> 0 < width"
  using DecodeRuneInString_size [of s] by (cases "DecodeRuneInString s") auto

lemma DecodeLastRuneInString_width:
  "(r, width) = DecodeLastRuneInString s \<Longrightarrow> s \<noteq> [] \<Longrightarrow> 0 < width"
  using DecodeLastRuneInString_size [of s] by (cases "DecodeLastRuneInString s") auto

text \<open>
  \<^verbatim>\<open>TrimLeftFunc\<close> and \<^verbatim>\<open>TrimRightFunc\<close> with \<^verbatim>\<open>unicode.IsSpace\<close>: the loops that drop white
  space code points from the front and from the back.
\<close>

function TrimLeftSpace :: "string \<Rightarrow> string" where
  "TrimLeftSpace s =
     (if s = [] then []
      else (case DecodeRuneInString s of
              (r, width) \<Rightarrow> if IsSpace r then TrimLeftSpace (drop width s) else s))"
  by pat_completeness auto
termination
  by (relation "measure length") (auto dest: DecodeRuneInString_width)

function TrimRightSpace :: "string \<Rightarrow> string" where
  "TrimRightSpace s =
     (if s = [] then []
      else (case DecodeLastRuneInString s of
              (r, width) \<Rightarrow> if IsSpace r then TrimRightSpace (take (length s - width) s) else s))"
  by pat_completeness auto
termination
  by (relation "measure length") (auto dest: DecodeLastRuneInString_width)

declare TrimLeftSpace.simps [simp del] TrimRightSpace.simps [simp del]

definition TrimSpace :: "string \<Rightarrow> string" where
  "TrimSpace s = TrimRightSpace (TrimLeftSpace s)"

subsection \<open>The outside world\<close>

text \<open>
  Everything the program does to its surroundings is recorded, in order, as an event: the
  four remote requests with the fields the program fills in, the creation and removal of
  local files, the strings handed to the buffered writer, and the lines printed.
\<close>

datatype event =
    TranslateCall string string string
  | SynthesizeCall string string string
  | PutObjectCall string string string
  | StartJobCall string string string string string
  | CreateCall string
  | RemoveCall string
  | WriteStringCall string
  | PrintlnCall string

text \<open>
  The state: the local disk (file name to content), the buckets of the object store (bucket
  and key to body), the bytes waiting in the \<^verbatim>\<open>bufio.Writer\<close>, and the events so far.
\<close>

record world =
  disk :: "string \<rightharpoonup> string"
  s3 :: "string \<times> string \<rightharpoonup> string"
  wbuf :: string
  events :: "event list"

text \<open>
  What \<^verbatim>\<open>bufio.Scanner\<close> delivers from an opened file: the lines, without their line ends,
  in file order, and the error that stopped the reading, if any. The audio stream of a
  synthesis response is the same kind of thing: the bytes that arrive and the error that
  ended the copy, if any.
\<close>

record scanner =
  tokens :: "string list"
  scan_err :: "error option"

record audio_stream =
  stream_bytes :: string
  copy_err :: "error option"

text \<open>
  The answers of the surroundings. Every call site of the loop body runs at most once per
  iteration, so an answer is indexed by the position of the input line (from 0) and takes
  the arguments of the call. The two readings of the clock in one iteration, at line 134 and
  at line 176, are separate answers.
\<close>

record env =
  os_Open :: "string \<Rightarrow> error + scanner"
  create_output :: "string \<Rightarrow> error option"
  remove_output :: "string \<Rightarrow> error option"
  translate_Text :: "nat \<Rightarrow> string \<Rightarrow> error + string"
  polly_SynthesizeSpeech :: "nat \<Rightarrow> string \<Rightarrow> error + audio_stream"
  now_audio :: "nat \<Rightarrow> time"
  create_audio :: "nat \<Rightarrow> string \<Rightarrow> error option"
  s3_PutObject :: "nat \<Rightarrow> string \<Rightarrow> string \<Rightarrow> string \<Rightarrow> error option"
  remove_audio :: "nat \<Rightarrow> string \<Rightarrow> error option"
  now_job :: "nat \<Rightarrow> time"
  transcribe_Start :: "nat \<Rightarrow> string \<Rightarrow> string \<Rightarrow> error option"

definition emit :: "event \<Rightarrow> world \<Rightarrow> world" where
  "emit e w = w\<lparr>events := events w @ [e]\<rparr>"

text \<open>\<^verbatim>\<open>fmt.Println(a, b)\<close> prints its operands with a space between them.\<close>

definition Println :: "string \<Rightarrow> string \<Rightarrow> world \<Rightarrow> world" where
  "Println a b w = emit (PrintlnCall (a @ '' '' @ b)) w"

subsection \<open>The buffered writer over the output file\<close>

definition outputFileName :: string where
  "outputFileName = ''translated_text.txt''"

definition bucketName :: string where
  "bucketName = ''report.3q-aws-s24745201.com''"

text \<open>
  A write to the open output file appends to its content. Writes to this file are taken to
  succeed: the program ignores the results of \<^verbatim>\<open>WriteString\<close> and \<^verbatim>\<open>Flush\<close>, so a failed
  write would be no branch of it, and what is proved below about the bytes in the file is
  proved of runs in which the disk accepts them.
\<close>

definition file_Write :: "string \<Rightarrow> world \<Rightarrow> world" where
  "file_Write bytes w =
     (case disk w outputFileName of
        None \<Rightarrow> w
      | Some content \<Rightarrow> w\<lparr>disk := (disk w)(outputFileName \<mapsto> content @ bytes)\<rparr>)"

definition Available :: "world \<Rightarrow> nat" where
  "Available w = 4096 - length (wbuf w)"

definition Flush :: "world \<Rightarrow> world" where
  "Flush w = (file_Write (wbuf w) w)\<lparr>wbuf := []\<rparr>"

text \<open>
  \<^verbatim>\<open>(*bufio.Writer).WriteString\<close> with the default buffer of 4096 bytes: while the string
  does not fit, a string arriving at an empty buffer goes to the file directly, and otherwise
  the buffer is filled and flushed; what is left is copied into the buffer.
\<close>

function bufio_WriteString :: "string \<Rightarrow> world \<Rightarrow> world" where
  "bufio_WriteString s w =
     (if Available w < length s then
        (if wbuf w = [] then file_Write s w
         else bufio_WriteString (drop (Available w) s)
                (Flush (w\<lparr>wbuf := wbuf w @ take (Available w) s\<rparr>)))
      else w\<lparr>wbuf := wbuf w @ s\<rparr>)"
  by pat_completeness auto
termination
  by (relation "measure (\<lambda>(s, w). 2 * length s + (if wbuf w = [] then 0 else 1))")
    (auto simp: Flush_def file_Write_def split: option.splits)

declare bufio_WriteString.simps [simp del]

definition WriteString :: "string \<Rightarrow> world \<Rightarrow> world" where
  "WriteString s w = bufio_WriteString s (emit (WriteStringCall s) w)"

subsection \<open>Local files\<close>

text \<open>
  \<^verbatim>\<open>os.Create\<close> makes the file empty when it succeeds (an existing file of that name is
  truncated); \<^verbatim>\<open>os.Remove\<close> takes the name off the disk when it succeeds. A call that fails
  leaves the disk as it was.
\<close>

definition os_Create :: "error option \<Rightarrow> string \<Rightarrow> world \<Rightarrow> error option \<times> world" where
  "os_Create answer name w =
     (case answer of
        Some err \<Rightarrow> (Some err, emit (CreateCall name) w)
      | None \<Rightarrow> (None, (emit (CreateCall name) w)\<lparr>disk := (disk w)(name \<mapsto> [])\<rparr>))"

definition os_Remove :: "error option \<Rightarrow> string \<Rightarrow> world \<Rightarrow> error option \<times> world" where
  "os_Remove answer name w =
     (case answer of
        Some err \<Rightarrow> (Some err, emit (RemoveCall name) w)
      | None \<Rightarrow> (None, (emit (RemoveCall name) w)\<lparr>disk := (disk w)(name := None)\<rparr>))"

text \<open>
  \<^verbatim>\<open>audioFile.ReadFrom(stream)\<close>: the bytes that arrive are written to the file, and the
  error that ended the copy is returned.
\<close>

definition ReadFrom :: "string \<Rightarrow> audio_stream \<Rightarrow> world \<Rightarrow> error option \<times> world" where
  "ReadFrom name stream w = (copy_err stream, w\<lparr>disk := (disk w)(name \<mapsto> stream_bytes stream)\<rparr>)"

subsection \<open>\<^verbatim>\<open>getInputText\<close> (lines 85 to 101)\<close>

text \<open>The loop \<^verbatim>\<open>for scanner.Scan() { lines = append(lines, scanner.Text()) }\<close>.\<close>

fun scan_loop :: "string list \<Rightarrow> string list \<Rightarrow> string list" where
  "scan_loop [] lines = lines"
| "scan_loop (text # rest) lines = scan_loop rest (lines @ [text])"

definition getInputText :: "env \<Rightarrow> string \<Rightarrow> error + string list" where
  "getInputText env filePath =
     (case os_Open env filePath of
        Inl err \<Rightarrow> Inl err
      | Inr scanner \<Rightarrow>
          (let lines = scan_loop (tokens scanner) []
           in case scan_err scanner of
                Some err \<Rightarrow> Inl err
              | None \<Rightarrow> Inr lines))"

subsection \<open>\<^verbatim>\<open>translateText\<close> (lines 104 to 116)\<close>

definition translateText :: "env \<Rightarrow> nat \<Rightarrow> string \<Rightarrow> world \<Rightarrow> (error + string) \<times> world" where
  "translateText env i text w =
     (translate_Text env i text, emit (TranslateCall text ''ja'' ''en'') w)"

subsection \<open>\<^verbatim>\<open>synthesizeSpeechAndUpload\<close> (lines 119 to 168)\<close>

definition synthesizeSpeechAndUpload ::
  "env \<Rightarrow> nat \<Rightarrow> string \<Rightarrow> string \<Rightarrow> world \<Rightarrow> (error + string) \<times> world" where
  "synthesizeSpeechAndUpload env i text bucket w =
     (let w1 = emit (SynthesizeCall text ''mp3'' ''Joanna'') w in
      case polly_SynthesizeSpeech env i text of
        Inl err \<Rightarrow> (Inl err, w1)
      | Inr speechOutput \<Rightarrow>
          (let name = audioFileName (now_audio env i) in
           case os_Create (create_audio env i name) name w1 of
             (Some err, w2) \<Rightarrow> (Inl err, w2)
           | (None, w2) \<Rightarrow>
               (case ReadFrom name speechOutput w2 of
                  (Some err, w3) \<Rightarrow> (Inl err, w3)
                | (None, w3) \<Rightarrow>
                    (let body = (case disk w3 name of Some content \<Rightarrow> content | None \<Rightarrow> []);
                         w4 = emit (PutObjectCall bucket name body) w3
                     in case s3_PutObject env i bucket name body of
                          Some err \<Rightarrow> (Inl err, w4)
                        | None \<Rightarrow>
                            (let w5 = Println ''Uploaded audio file to S3:'' name
                                        (w4\<lparr>s3 := (s3 w4)((bucket, name) \<mapsto> body)\<rparr>)
                             in case os_Remove (remove_audio env i name) name w5 of
                                  (Some err, w6) \<Rightarrow>
                                    (Inl err,
                                     Println ''Error deleting local audio file:'' (error_text err) w6)
                                | (None, w6) \<Rightarrow>
                                    (Inr name, Println ''Deleted local audio file:'' name w6))))))"

subsection \<open>\<^verbatim>\<open>transcribeAudioFile\<close> (lines 171 to 194)\<close>

definition transcribeAudioFile ::
  "env \<Rightarrow> nat \<Rightarrow> string \<Rightarrow> string \<Rightarrow> world \<Rightarrow> error option \<times> world" where
  "transcribeAudioFile env i name bucket w =
     (let audioFileURI = ''s3://'' @ bucket @ ''/'' @ name;
          job = transcriptionJobName (now_job env i);
          w1 = emit (StartJobCall job ''en-US'' ''mp3'' audioFileURI bucket) w
      in case transcribe_Start env i job audioFileURI of
           Some err \<Rightarrow> (Some err, w1)
         | None \<Rightarrow> (None, Println ''Transcription job started:'' job w1))"

subsection \<open>\<^verbatim>\<open>main\<close> (lines 18 to 82)\<close>

text \<open>
  The AWS session of lines 20 to 22 only configures the clients; the answers of the services
  are those of the surroundings, and closing a file handle changes nothing that is observed,
  so neither has a place in the state.
\<close>

text \<open>
  The body of the loop for one line that is not blank (lines 57 to 78). The result is
  \<open>True\<close> when the loop goes on to the next line and \<open>False\<close> when \<^verbatim>\<open>main\<close> returns.
\<close>

definition loop_body :: "env \<Rightarrow> nat \<Rightarrow> string \<Rightarrow> world \<Rightarrow> bool \<times> world" where
  "loop_body env i txt w =
     (case translateText env i txt w of
        (Inl err, w1) \<Rightarrow> (False, Println ''Error translating text:'' (error_text err) w1)
      | (Inr translatedText, w1) \<Rightarrow>
          (let w2 = Println ''Translated text:'' translatedText w1;
               w3 = WriteString (translatedText @ [CHR 0x0A]) w2
           in case synthesizeSpeechAndUpload env i translatedText bucketName w3 of
                (Inl err, w4) \<Rightarrow>
                  (False,
                   Println ''Error synthesizing or uploading audio file:'' (error_text err) w4)
              | (Inr name, w4) \<Rightarrow>
                  (case transcribeAudioFile env i name bucketName w4 of
                     (Some err, w5) \<Rightarrow>
                       (False, Println ''Error transcribing audio file:'' (error_text err) w5)
                   | (None, w5) \<Rightarrow> (True, w5))))"

text \<open>The loop over \<^verbatim>\<open>textLines\<close> (lines 55 to 80); \<open>i\<close> is the position of the next line.\<close>

fun main_loop :: "env \<Rightarrow> nat \<Rightarrow> string list \<Rightarrow> world \<Rightarrow> bool \<times> world" where
  "main_loop env i [] w = (True, w)"
| "main_loop env i (txt # rest) w =
     (if TrimSpace txt \<noteq> [] then
        (case loop_body env i txt w of
           (False, w') \<Rightarrow> (False, w')
         | (True, w') \<Rightarrow> main_loop env (Suc i) rest w')
      else main_loop env (Suc i) rest w)"

text \<open>Lines 53 to 81: the writer, the loop, and the flush that only a completed loop reaches.\<close>

definition write_all :: "env \<Rightarrow> string list \<Rightarrow> world \<Rightarrow> world" where
  "write_all env textLines w =
     (case main_loop env 0 textLines (w\<lparr>wbuf := []\<rparr>) of
        (True, w') \<Rightarrow> Flush w'
      | (False, w') \<Rightarrow> w')"

text \<open>The deferred function (lines 42 to 51), which runs however \<^verbatim>\<open>main\<close> returns after line 40.\<close>

definition deferred :: "env \<Rightarrow> world \<Rightarrow> world" where
  "deferred env w =
     (case os_Remove (remove_output env outputFileName) outputFileName w of
        (Some err, w') \<Rightarrow> Println ''Error deleting local text file:'' (error_text err) w'
      | (None, w') \<Rightarrow> Println ''Deleted local text file:'' outputFileName w')"

definition main :: "env \<Rightarrow> world \<Rightarrow> world" where
  "main env w =
     (case getInputText env ''./input.txt'' of
        Inl err \<Rightarrow> Println ''Error reading input file:'' (error_text err) w
      | Inr textLines \<Rightarrow>
          (case os_Create (create_output env outputFileName) outputFileName w of
             (Some err, w1) \<Rightarrow> Println ''Error creating output file:'' (error_text err) w1
           | (None, w1) \<Rightarrow> deferred env (write_all env textLines w1)))"

subsection \<open>What is observed of a run\<close>

text \<open>The requests to the four remote services, among all events.\<close>

fun is_remote :: "event \<Rightarrow> bool" where
  "is_remote (TranslateCall text source target) = True"
| "is_remote (SynthesizeCall text format voice) = True"
| "is_remote (PutObjectCall bucket key body) = True"
| "is_remote (StartJobCall job language format uri bucket) = True"
| "is_remote e = False"

definition remote_calls :: "world \<Rightarrow> event list" where
  "remote_calls w = filter is_remote (events w)"

text \<open>The entries the result sink has received: the strings handed to the writer, in order.\<close>

fun written :: "event list \<Rightarrow> string list" where
  "written [] = []"
| "written (WriteStringCall s # es) = s # written es"
| "written (e # es) = written es"

definition sink_entries :: "world \<Rightarrow> string list" where
  "sink_entries w = written (events w)"

text \<open>
  The bytes the sink holds: the content of the output file followed by the bytes still in
  the buffer; nothing once the file is gone.
\<close>

definition sink :: "world \<Rightarrow> string option" where
  "sink w = map_option (\<lambda>content. content @ wbuf w) (disk w outputFileName)"

text \<open>
  The stage at which the record of line \<open>i\<close> fails, read off the answers of the
  surroundings in the order in which the code asks for them; \<open>None\<close> when every step of the
  record succeeds. Staging is the creation and the filling of the local audio file, cleanup
  its removal.
\<close>

datatype stage = Translation | Synthesis | Staging | Upload | Cleanup | Submission

definition staging_name :: "env \<Rightarrow> nat \<Rightarrow> string" where
  "staging_name env i = audioFileName (now_audio env i)"

definition job_name :: "env \<Rightarrow> nat \<Rightarrow> string" where
  "job_name env i = transcriptionJobName (now_job env i)"

definition failing_stage :: "env \<Rightarrow> nat \<Rightarrow> string \<Rightarrow> stage option" where
  "failing_stage env i txt =
     (case translate_Text env i txt of
        Inl err \<Rightarrow> Some Translation
      | Inr t \<Rightarrow>
          (case polly_SynthesizeSpeech env i t of
             Inl err \<Rightarrow> Some Synthesis
           | Inr stream \<Rightarrow>
               if create_audio env i (staging_name env i) \<noteq> None \<or> copy_err stream \<noteq> None
               then Some Staging
               else if s3_PutObject env i bucketName (staging_name env i) (stream_bytes stream)
                       \<noteq> None
               then Some Upload
               else if remove_audio env i (staging_name env i) \<noteq> None then Some Cleanup
               else if transcribe_Start env i (job_name env i)
                         (''s3://'' @ bucketName @ ''/'' @ staging_name env i) \<noteq> None
               then Some Submission
               else None))"

text \<open>Every step of every record of the input succeeds; \<open>i\<close> is the position of the first line.\<close>

fun records_ok :: "env \<Rightarrow> nat \<Rightarrow> string list \<Rightarrow> bool" where
  "records_ok env i [] = True"
| "records_ok env i (txt # rest) =
     ((TrimSpace txt \<noteq> [] \<longrightarrow> failing_stage env i txt = None) \<and> records_ok env (Suc i) rest)"

text \<open>
  The entries expected in the sink: for each line that is not blank, in input order, its
  translation and a line feed.
\<close>

fun translated :: "env \<Rightarrow> nat \<Rightarrow> string list \<Rightarrow> string list" where
  "translated env i [] = []"
| "translated env i (txt # rest) =
     (if TrimSpace txt \<noteq> [] then
        (case translate_Text env i txt of
           Inl err \<Rightarrow> translated env (Suc i) rest
         | Inr t \<Rightarrow> (t @ [CHR 0x0A]) # translated env (Suc i) rest)
      else translated env (Suc i) rest)"

text \<open>The four remote requests of a record all of whose steps are reached.\<close>

definition record_calls :: "env \<Rightarrow> nat \<Rightarrow> string \<Rightarrow> event list" where
  "record_calls env i txt =
     (let t = (case translate_Text env i txt of Inl err \<Rightarrow> [] | Inr t \<Rightarrow> t);
          body = (case polly_SynthesizeSpeech env i t of
                    Inl err \<Rightarrow> []
                  | Inr stream \<Rightarrow> stream_bytes stream)
      in [TranslateCall txt ''ja'' ''en'',
          SynthesizeCall t ''mp3'' ''Joanna'',
          PutObjectCall bucketName (staging_name env i) body,
          StartJobCall (job_name env i) ''en-US'' ''mp3''
            (''s3://'' @ bucketName @ ''/'' @ staging_name env i) bucketName])"

text \<open>The remote requests of a run in which every record succeeds: those of the lines that are not blank.\<close>

fun expected_calls :: "env \<Rightarrow> nat \<Rightarrow> string list \<Rightarrow> event list" where
  "expected_calls env i [] = []"
| "expected_calls env i (txt # rest) =
     (if TrimSpace txt \<noteq> [] then record_calls env i txt else []) @
     expected_calls env (Suc i) rest"

text \<open>How many of them have been made when the record fails at a stage.\<close>

fun calls_made :: "stage \<Rightarrow> nat" where
  "calls_made Translation = 1"
| "calls_made Synthesis = 2"
| "calls_made Staging = 2"
| "calls_made Upload = 3"
| "calls_made Cleanup = 3"
| "calls_made Submission = 4"

subsection \<open>Sample surroundings\<close>

text \<open>
  Surroundings in which every request succeeds: the input has the lines \<^verbatim>\<open>hello\<close>, an
  ideographic space (\<^verbatim>\<open>U+3000\<close>, three bytes) and \<^verbatim>\<open>thanks\<close>; the clock reads
  2024-01-02T03:04:05 and the even seconds after it when a staging file is named, and one
  second later when the job is named. The variants below change one answer each.
\<close>

definition reading :: time where
  "reading = \<lparr>year = 2024, month = 1, day = 2, hour = 3, minute = 4, second = 5,
               nanosecond = 0\<rparr>"

definition env_ok :: env where
  "env_ok =
     \<lparr>os_Open = (\<lambda>path. Inr \<lparr>tokens = [''hello'', [CHR 0xE3, CHR 0x80, CHR 0x80], ''thanks''],
                              scan_err = None\<rparr>),
      create_output = (\<lambda>name. None),
      remove_output = (\<lambda>name. None),
      translate_Text = (\<lambda>i text. Inr (''en:'' @ text)),
      polly_SynthesizeSpeech = (\<lambda>i text. Inr \<lparr>stream_bytes = ''mp3:'' @ text, copy_err = None\<rparr>),
      now_audio = (\<lambda>i. reading\<lparr>second := 5 + 2 * i\<rparr>),
      create_audio = (\<lambda>i name. None),
      s3_PutObject = (\<lambda>i bucket key body. None),
      remove_audio = (\<lambda>i name. None),
      now_job = (\<lambda>i. reading\<lparr>second := 6 + 2 * i\<rparr>),
      transcribe_Start = (\<lambda>i job uri. None)\<rparr>"

definition env_three_records :: env where
  "env_three_records =
     env_ok\<lparr>os_Open := (\<lambda>path. Inr \<lparr>tokens = [''hello'', ''thanks'', ''bye''], scan_err = None\<rparr>)\<rparr>"

definition env_translate_fails :: env where
  "env_translate_fails =
     env_three_records\<lparr>translate_Text :=
       (\<lambda>i text. if i = 1 then Inl (Error ''ThrottlingException'') else Inr (''en:'' @ text))\<rparr>"

definition env_put_fails :: env where
  "env_put_fails = env_ok\<lparr>s3_PutObject := (\<lambda>i bucket key body. Some (Error ''AccessDenied''))\<rparr>"

definition env_remove_fails :: env where
  "env_remove_fails = env_ok\<lparr>remove_audio := (\<lambda>i name. Some (Error ''permission denied''))\<rparr>"

definition env_no_input :: env where
  "env_no_input = env_ok\<lparr>os_Open := (\<lambda>path. Inl (Error ''no such file or directory''))\<rparr>"

definition env_read_error :: env where
  "env_read_error =
     env_ok\<lparr>os_Open := (\<lambda>path. Inr \<lparr>tokens = [''hello''], scan_err = Some (Error ''input/output error'')\<rparr>)\<rparr>"

text \<open>An empty disk, an empty object store, and nothing done yet.\<close>

definition initial :: world where
  "initial = \<lparr>disk = Map.empty, s3 = Map.empty, wbuf = [], events = []\<rparr>"

section \<open>Properties\<close>

subsection \<open>Format of the generated names\<close>

lemma Format_layout:
  "Format t ''20060102150405'' =
     appendInt (year t) 4 @ appendInt (int (month t)) 2 @ appendInt (int (day t)) 2 @
     appendInt (int (hour t)) 2 @ appendInt (int (minute t)) 2 @ appendInt (int (second t)) 2"
  by (simp add: Format.simps)

lemma digit_0: "digit 0 = CHR ''0''"
  by (simp add: digit_def)

lemma digit_mod: "digit (n mod 10) = digit n"
  by (simp add: digit_def)

lemma digit_div_0: "n < k \<Longrightarrow> digit (n div k) = CHR ''0''"
  by (simp add: digit_0)

lemma dec_digits_1: "n < 10 \<Longrightarrow> dec_digits n = [digit n]"
  by (subst dec_digits.simps) simp

lemma dec_digits_step: "10 \<le> n \<Longrightarrow> dec_digits n = dec_digits (n div 10) @ [digit n]"
  by (subst dec_digits.simps) (simp add: digit_mod)

lemma dec_digits_2: "10 \<le> n \<Longrightarrow> n < 100 \<Longrightarrow> dec_digits n = [digit (n div 10), digit n]"
proof -
  assume a: "10 \<le> n" "n < 100"
  then have "n div 10 < 10" by simp
  then show ?thesis using a by (simp add: dec_digits_step dec_digits_1)
qed

lemma dec_digits_3:
  "100 \<le> n \<Longrightarrow> n < 1000 \<Longrightarrow> dec_digits n = [digit (n div 100), digit (n div 10), digit n]"
proof -
  assume a: "100 \<le> n" "n < 1000"
  then have b: "10 \<le> n div 10" "n div 10 < 100" "10 \<le> n" by simp_all
  have c: "n div 10 div 10 = n div 100" by (simp add: div_mult2_eq [symmetric])
  show ?thesis using dec_digits_step [OF b(3)] dec_digits_2 [OF b(1,2)] c by simp
qed

lemma dec_digits_4:
  "1000 \<le> n \<Longrightarrow> n < 10000 \<Longrightarrow>
   dec_digits n = [digit (n div 1000), digit (n div 100), digit (n div 10), digit n]"
proof -
  assume a: "1000 \<le> n" "n < 10000"
  then have b: "100 \<le> n div 10" "n div 10 < 1000" "10 \<le> n" by simp_all
  have c: "n div 10 div 100 = n div 1000" "n div 10 div 10 = n div 100"
    by (simp_all add: div_mult2_eq [symmetric])
  show ?thesis using dec_digits_step [OF b(3)] dec_digits_3 [OF b(1,2)] c by simp
qed

lemma appendInt_2: "n < 100 \<Longrightarrow> appendInt (int n) 2 = digits2 n"
  by (cases "n < 10")
    (simp_all add: appendInt_def digits2_def dec_digits_1 dec_digits_2 digit_div_0 digit_0 numeral_2_eq_2)

lemma pad4:
  "n < 10000 \<Longrightarrow> replicate (4 - length (dec_digits n)) (CHR ''0'') @ dec_digits n = digits4 n"
proof -
  assume n: "n < 10000"
  consider "n < 10" | "10 \<le> n" "n < 100" | "100 \<le> n" "n < 1000" | "1000 \<le> n"
    by linarith
  then show ?thesis
  proof cases
    case 1
    then have "n < 100" "n < 1000" by simp_all
    with 1 show ?thesis
      by (simp add: dec_digits_1 digits4_def digit_div_0 digit_0 numeral_3_eq_3)
  next
    case 2
    then have "n < 1000" by simp
    with 2 show ?thesis
      by (simp add: dec_digits_2 digits4_def digit_div_0 digit_0 numeral_2_eq_2)
  next
    case 3
    then show ?thesis by (simp add: dec_digits_3 digits4_def digit_div_0 digit_0)
  next
    case 4
    then show ?thesis using n by (simp add: dec_digits_4 digits4_def)
  qed
qed

lemma appendInt_4: "0 \<le> y \<Longrightarrow> y < 10000 \<Longrightarrow> appendInt y 4 = digits4 (nat y)"
  using pad4 [of "nat y"] by (simp add: appendInt_def)

lemma Format_civil: "civil t \<Longrightarrow> Format t ''20060102150405'' = YYYYMMDDHHMMSS t"
  by (simp add: Format_layout YYYYMMDDHHMMSS_def civil_def appendInt_2 appendInt_4)

lemma Format_fixed_instant:
  "Format \<lparr>year = 2024, month = 1, day = 2, hour = 3, minute = 4, second = 5,
           nanosecond = ns\<rparr> ''20060102150405'' = ''20240102030405''"
proof -
  let ?t = "\<lparr>year = 2024, month = 1, day = 2, hour = 3, minute = 4, second = 5,
             nanosecond = ns\<rparr>"
  have "YYYYMMDDHHMMSS ?t = ''20240102030405''"
    by (simp add: YYYYMMDDHHMMSS_def digits2_def digits4_def digit_def)
  moreover have "civil ?t"
    by (simp add: civil_def)
  ultimately show ?thesis
    using Format_civil [of ?t] by simp
qed

text \<open>
  Claim C6. For every clock reading with a date of the years 0 to 9999, the audio name is
  \<^verbatim>\<open>audioFile-\<close>, the reading as \<^verbatim>\<open>YYYYMMDDHHMMSS\<close>, and \<^verbatim>\<open>-output.mp3\<close>; the job name is
  \<^verbatim>\<open>transcription-job-\<close> and the same fourteen digits. At 2024-01-02T03:04:05 the two names
  are \<^verbatim>\<open>audioFile-20240102030405-output.mp3\<close> and \<^verbatim>\<open>transcription-job-20240102030405\<close>.
\<close>

theorem generated_names_format:
  "(civil t \<longrightarrow>
      audioFileName t = ''audioFile-'' @ YYYYMMDDHHMMSS t @ ''-output.mp3'' \<and>
      transcriptionJobName t = ''transcription-job-'' @ YYYYMMDDHHMMSS t) \<and>
   audioFileName \<lparr>year = 2024, month = 1, day = 2, hour = 3, minute = 4, second = 5,
                  nanosecond = ns\<rparr> = ''audioFile-20240102030405-output.mp3'' \<and>
   transcriptionJobName \<lparr>year = 2024, month = 1, day = 2, hour = 3, minute = 4, second = 5,
                         nanosecond = ns\<rparr> = ''transcription-job-20240102030405''"
proof -
  have general: "civil t \<longrightarrow>
      audioFileName t = ''audioFile-'' @ YYYYMMDDHHMMSS t @ ''-output.mp3'' \<and>
      transcriptionJobName t = ''transcription-job-'' @ YYYYMMDDHHMMSS t"
    by (simp add: audioFileName_def transcriptionJobName_def Format_civil)
  have audio: "audioFileName \<lparr>year = 2024, month = 1, day = 2, hour = 3, minute = 4,
      second = 5, nanosecond = ns\<rparr> = ''audioFile-20240102030405-output.mp3''"
    unfolding audioFileName_def Format_fixed_instant by simp
  have job: "transcriptionJobName \<lparr>year = 2024, month = 1, day = 2, hour = 3, minute = 4,
      second = 5, nanosecond = ns\<rparr> = ''transcription-job-20240102030405''"
    unfolding transcriptionJobName_def Format_fixed_instant by simp
  from general audio job show ?thesis by blast
qed

theorem generated_names_format_witness:
  "civil \<lparr>year = 2025, month = 12, day = 31, hour = 23, minute = 59, second = 58,
          nanosecond = 7\<rparr> \<and>
   audioFileName \<lparr>year = 2025, month = 12, day = 31, hour = 23, minute = 59, second = 58,
                  nanosecond = 7\<rparr> = ''audioFile-20251231235958-output.mp3'' \<and>
   transcriptionJobName \<lparr>year = 2025, month = 12, day = 31, hour = 23, minute = 59,
                         second = 58, nanosecond = 7\<rparr> = ''transcription-job-20251231235958''"
proof -
  let ?t = "\<lparr>year = 2025, month = 12, day = 31, hour = 23, minute = 59, second = 58,
             nanosecond = 7\<rparr>"
  have c: "civil ?t" by (simp add: civil_def)
  have y: "YYYYMMDDHHMMSS ?t = ''20251231235958''"
    by (simp add: YYYYMMDDHHMMSS_def digits2_def digits4_def digit_def)
  show ?thesis
    using c y generated_names_format [of ?t] by simp
qed

lemma truncate_second_fields:
  "truncate_second t1 = truncate_second t2 \<Longrightarrow>
   year t1 = year t2 \<and> month t1 = month t2 \<and> day t1 = day t2 \<and>
   hour t1 = hour t2 \<and> minute t1 = minute t2 \<and> second t1 = second t2"
  by (cases t1, cases t2) (simp add: truncate_second_def)

text \<open>
  Claim C7. The names are functions of the clock reading alone, and of no more of it than
  its whole seconds: two readings that agree once truncated to the second give the same
  audio name and the same job name.
\<close>

theorem names_same_within_second:
  "truncate_second t1 = truncate_second t2 \<Longrightarrow>
   audioFileName t1 = audioFileName t2 \<and> transcriptionJobName t1 = transcriptionJobName t2"
  by (drule truncate_second_fields)
    (simp add: audioFileName_def transcriptionJobName_def Format_layout)

theorem names_same_within_second_witness:
  "truncate_second \<lparr>year = 2024, month = 1, day = 2, hour = 3, minute = 4, second = 5,
                    nanosecond = 1\<rparr> =
   truncate_second \<lparr>year = 2024, month = 1, day = 2, hour = 3, minute = 4, second = 5,
                    nanosecond = 999999999\<rparr> \<and>
   audioFileName \<lparr>year = 2024, month = 1, day = 2, hour = 3, minute = 4, second = 5,
                  nanosecond = 1\<rparr> =
   audioFileName \<lparr>year = 2024, month = 1, day = 2, hour = 3, minute = 4, second = 5,
                  nanosecond = 999999999\<rparr> \<and>
   transcriptionJobName \<lparr>year = 2024, month = 1, day = 2, hour = 3, minute = 4, second = 5,
                         nanosecond = 1\<rparr> =
   transcriptionJobName \<lparr>year = 2024, month = 1, day = 2, hour = 3, minute = 4, second = 5,
                         nanosecond = 999999999\<rparr>"
proof -
  let ?a = "\<lparr>year = 2024, month = 1, day = 2, hour = 3, minute = 4, second = 5,
             nanosecond = 1\<rparr>"
  let ?b = "\<lparr>year = 2024, month = 1, day = 2, hour = 3, minute = 4, second = 5,
             nanosecond = 999999999\<rparr>"
  have h: "truncate_second ?a = truncate_second ?b" by (simp add: truncate_second_def)
  show ?thesis using h names_same_within_second [OF h] by simp
qed

subsection \<open>Frame properties of the basic operations\<close>

lemma emit_fields [simp]:
  "events (emit e w) = events w @ [e]" "disk (emit e w) = disk w"
  "s3 (emit e w) = s3 w" "wbuf (emit e w) = wbuf w"
  by (simp_all add: emit_def)

lemma Println_fields [simp]:
  "events (Println a b w) = events w @ [PrintlnCall (a @ '' '' @ b)]"
  "disk (Println a b w) = disk w" "s3 (Println a b w) = s3 w" "wbuf (Println a b w) = wbuf w"
  by (simp_all add: Println_def)

lemma file_Write_fields [simp]:
  "events (file_Write bytes w) = events w" "s3 (file_Write bytes w) = s3 w"
  "wbuf (file_Write bytes w) = wbuf w"
  by (simp_all add: file_Write_def split: option.splits)

lemma file_Write_disk:
  "disk (file_Write bytes w) =
     (case disk w outputFileName of
        None \<Rightarrow> disk w
      | Some content \<Rightarrow> (disk w)(outputFileName \<mapsto> content @ bytes))"
  by (simp add: file_Write_def split: option.splits)

lemma Flush_fields [simp]:
  "events (Flush w) = events w" "s3 (Flush w) = s3 w" "wbuf (Flush w) = []"
  by (simp_all add: Flush_def)

lemma Flush_disk:
  "disk (Flush w) =
     (case disk w outputFileName of
        None \<Rightarrow> disk w
      | Some content \<Rightarrow> (disk w)(outputFileName \<mapsto> content @ wbuf w))"
  by (simp add: Flush_def file_Write_disk)

lemma bufio_WriteString_events [simp]: "events (bufio_WriteString s w) = events w"
proof (induction s w rule: bufio_WriteString.induct)
  case (1 s w)
  show ?case
    by (subst bufio_WriteString.simps) (simp add: 1)
qed

lemma bufio_WriteString_s3 [simp]: "s3 (bufio_WriteString s w) = s3 w"
proof (induction s w rule: bufio_WriteString.induct)
  case (1 s w)
  show ?case
    by (subst bufio_WriteString.simps) (simp add: 1)
qed

lemma bufio_WriteString_sink:
  "sink w = Some c \<Longrightarrow> sink (bufio_WriteString s w) = Some (c @ s)"
proof (induction s w arbitrary: c rule: bufio_WriteString.induct)
  case (1 s w)
  show ?case
  proof (cases "Available w < length s")
    case False
    with 1(2) show ?thesis
      by (subst bufio_WriteString.simps) (auto simp: sink_def split: option.splits)
  next
    case True
    show ?thesis
    proof (cases "wbuf w = []")
      case True
      with \<open>Available w < length s\<close> 1(2) show ?thesis
        by (subst bufio_WriteString.simps) (auto simp: sink_def file_Write_disk split: option.splits)
    next
      case False
      let ?w = "Flush (w\<lparr>wbuf := wbuf w @ take (Available w) s\<rparr>)"
      have "sink ?w = Some (c @ take (Available w) s)"
        using 1(2) by (auto simp: sink_def Flush_disk split: option.splits)
      from 1(1) [OF \<open>Available w < length s\<close> False this] show ?thesis
        using \<open>Available w < length s\<close> False
        by (subst bufio_WriteString.simps) simp
    qed
  qed
qed


lemma WriteString_fields [simp]:
  "events (WriteString s w) = events w @ [WriteStringCall s]" "s3 (WriteString s w) = s3 w"
  by (simp_all add: WriteString_def)

lemma WriteString_sink: "sink w = Some c \<Longrightarrow> sink (WriteString s w) = Some (c @ s)"
proof -
  assume "sink w = Some c"
  then have "sink (emit (WriteStringCall s) w) = Some c"
    by (auto simp: sink_def split: option.splits)
  then show ?thesis
    unfolding WriteString_def by (rule bufio_WriteString_sink)
qed

lemma audioFileName_not_output [simp]:
  "audioFileName t \<noteq> outputFileName" "outputFileName \<noteq> audioFileName t"
  by (simp_all add: audioFileName_def outputFileName_def)

text \<open>The ways a record can go, by the answers of the surroundings.\<close>

lemma stage_cases [case_names Translation Synthesis Create Copy Upload Cleanup Submission Ok]:
  obtains
    e where "translate_Text env i line = Inl e"
  | t e where "translate_Text env i line = Inr t" "polly_SynthesizeSpeech env i t = Inl e"
  | t st e where "translate_Text env i line = Inr t" "polly_SynthesizeSpeech env i t = Inr st"
      "create_audio env i (audioFileName (now_audio env i)) = Some e"
  | t st e where "translate_Text env i line = Inr t" "polly_SynthesizeSpeech env i t = Inr st"
      "create_audio env i (audioFileName (now_audio env i)) = None" "copy_err st = Some e"
  | t st e where "translate_Text env i line = Inr t" "polly_SynthesizeSpeech env i t = Inr st"
      "create_audio env i (audioFileName (now_audio env i)) = None" "copy_err st = None"
      "s3_PutObject env i bucketName (audioFileName (now_audio env i)) (stream_bytes st) = Some e"
  | t st e where "translate_Text env i line = Inr t" "polly_SynthesizeSpeech env i t = Inr st"
      "create_audio env i (audioFileName (now_audio env i)) = None" "copy_err st = None"
      "s3_PutObject env i bucketName (audioFileName (now_audio env i)) (stream_bytes st) = None"
      "remove_audio env i (audioFileName (now_audio env i)) = Some e"
  | t st e where "translate_Text env i line = Inr t" "polly_SynthesizeSpeech env i t = Inr st"
      "create_audio env i (audioFileName (now_audio env i)) = None" "copy_err st = None"
      "s3_PutObject env i bucketName (audioFileName (now_audio env i)) (stream_bytes st) = None"
      "remove_audio env i (audioFileName (now_audio env i)) = None"
      "transcribe_Start env i (transcriptionJobName (now_job env i))
         (''s3://'' @ bucketName @ ''/'' @ audioFileName (now_audio env i)) = Some e"
  | t st where "translate_Text env i line = Inr t" "polly_SynthesizeSpeech env i t = Inr st"
      "create_audio env i (audioFileName (now_audio env i)) = None" "copy_err st = None"
      "s3_PutObject env i bucketName (audioFileName (now_audio env i)) (stream_bytes st) = None"
      "remove_audio env i (audioFileName (now_audio env i)) = None"
      "transcribe_Start env i (transcriptionJobName (now_job env i))
         (''s3://'' @ bucketName @ ''/'' @ audioFileName (now_audio env i)) = None"
proof (cases "translate_Text env i line")
  case (Inl e)
  then show ?thesis by (rule that(1))
next
  case t: (Inr t)
  show ?thesis
  proof (cases "polly_SynthesizeSpeech env i t")
    case (Inl e)
    with t show ?thesis by (rule that(2))
  next
    case st: (Inr st)
    show ?thesis
    proof (cases "create_audio env i (audioFileName (now_audio env i))")
      case (Some e)
      with t st show ?thesis by (rule that(3))
    next
      case cr: None
      show ?thesis
      proof (cases "copy_err st")
        case (Some e)
        with t st cr show ?thesis by (rule that(4))
      next
        case cp: None
        show ?thesis
        proof (cases "s3_PutObject env i bucketName (audioFileName (now_audio env i))
                        (stream_bytes st)")
          case (Some e)
          with t st cr cp show ?thesis by (rule that(5))
        next
          case put: None
          show ?thesis
          proof (cases "remove_audio env i (audioFileName (now_audio env i))")
            case (Some e)
            with t st cr cp put show ?thesis by (rule that(6))
          next
            case rm: None
            show ?thesis
            proof (cases "transcribe_Start env i (transcriptionJobName (now_job env i))
                (''s3://'' @ bucketName @ ''/'' @ audioFileName (now_audio env i))")
              case (Some e)
              with t st cr cp put rm show ?thesis by (rule that(7))
            next
              case None
              with t st cr cp put rm show ?thesis by (rule that(8))
            qed
          qed
        qed
      qed
    qed
  qed
qed

lemmas step_defs =
  loop_body_def translateText_def synthesizeSpeechAndUpload_def transcribeAudioFile_def
  os_Create_def os_Remove_def ReadFrom_def Let_def

lemmas stage_defs = failing_stage_def staging_name_def job_name_def

lemma loop_body_fst: "fst (loop_body env i line w) \<longleftrightarrow> failing_stage env i line = None"
  by (rule stage_cases [of env i line]) (simp_all add: step_defs stage_defs)

lemma loop_body_remote_calls:
  "remote_calls (snd (loop_body env i line w)) =
     remote_calls w @
     (case failing_stage env i line of
        None \<Rightarrow> record_calls env i line
      | Some st \<Rightarrow> take (calls_made st) (record_calls env i line))"
  by (rule stage_cases [of env i line])
    (simp_all add: step_defs stage_defs remote_calls_def record_calls_def)


subsection \<open>One iteration of the loop\<close>

lemma written_append [simp]: "written (xs @ ys) = written xs @ written ys"
  by (induction xs rule: written.induct) simp_all

lemma loop_body_entries:
  "sink_entries (snd (loop_body env i line w)) =
     sink_entries w @
     (case translate_Text env i line of Inl e \<Rightarrow> [] | Inr t \<Rightarrow> [t @ [CHR 0x0A]])"
  by (rule stage_cases [of env i line]) (simp_all add: step_defs sink_entries_def)

lemma loop_body_sink:
  assumes "sink w = Some c"
  shows "sink (snd (loop_body env i line w)) =
     Some (c @ (case translate_Text env i line of Inl e \<Rightarrow> [] | Inr t \<Rightarrow> t @ [CHR 0x0A]))"
proof (cases "translate_Text env i line")
  case (Inl e)
  then have "sink (snd (loop_body env i line w)) = sink w"
    by (simp add: step_defs sink_def)
  with assms Inl show ?thesis by simp
next
  case (Inr t)
  let ?w = "WriteString (t @ [CHR 0x0A])
              (Println ''Translated text:'' t (emit (TranslateCall line ''ja'' ''en'') w))"
  have "sink (Println ''Translated text:'' t (emit (TranslateCall line ''ja'' ''en'') w)) = Some c"
    using assms by (simp add: sink_def)
  then have a: "sink ?w = Some (c @ t @ [CHR 0x0A])"
    by (rule WriteString_sink)
  have "sink (snd (loop_body env i line w)) = sink ?w"
    using Inr
    by (rule_tac stage_cases [of env i line]) (simp_all add: step_defs sink_def)
  with a Inr show ?thesis by simp
qed

subsection \<open>The loop\<close>

lemma main_loop_halt:
  assumes "TrimSpace line \<noteq> []" and "failing_stage env i line = Some st"
  shows "main_loop env i (line # rest) w = (False, snd (loop_body env i line w))"
proof -
  have "\<not> fst (loop_body env i line w)"
    using assms(2) by (simp add: loop_body_fst)
  then show ?thesis
    using assms(1) by (cases "loop_body env i line w") simp
qed

lemma main_loop_next:
  assumes "TrimSpace line \<noteq> []" and "failing_stage env i line = None"
  shows "main_loop env i (line # rest) w = main_loop env (Suc i) rest (snd (loop_body env i line w))"
proof -
  have "fst (loop_body env i line w)"
    using assms(2) by (simp add: loop_body_fst)
  then show ?thesis
    using assms(1) by (cases "loop_body env i line w") simp
qed

lemma main_loop_append:
  "fst (main_loop env i pre w) \<Longrightarrow>
   main_loop env i (pre @ rest) w = main_loop env (i + length pre) rest (snd (main_loop env i pre w))"
proof (induction pre arbitrary: i w)
  case Nil
  then show ?case by simp
next
  case (Cons line pre)
  show ?case
  proof (cases "TrimSpace line = []")
    case True
    with Cons show ?thesis by simp
  next
    case False
    obtain b w' where lb: "loop_body env i line w = (b, w')"
      by (cases "loop_body env i line w")
    with Cons.prems False have b by (cases b) simp_all
    with Cons lb False show ?thesis by simp
  qed
qed

lemma records_ok_translation:
  "failing_stage env i line = None \<Longrightarrow> \<exists>t. translate_Text env i line = Inr t"
  by (cases "translate_Text env i line") (simp_all add: failing_stage_def)

lemma main_loop_ok:
  "records_ok env i lines \<Longrightarrow>
   fst (main_loop env i lines w) \<and>
   sink_entries (snd (main_loop env i lines w)) = sink_entries w @ translated env i lines \<and>
   remote_calls (snd (main_loop env i lines w)) = remote_calls w @ expected_calls env i lines"
proof (induction lines arbitrary: i w)
  case Nil
  then show ?case by simp
next
  case (Cons line lines)
  show ?case
  proof (cases "TrimSpace line = []")
    case True
    with Cons show ?thesis by simp
  next
    case False
    with Cons.prems have ok: "failing_stage env i line = None" and rest: "records_ok env (Suc i) lines"
      by simp_all
    from ok obtain t where t: "translate_Text env i line = Inr t"
      using records_ok_translation by blast
    show ?thesis
      unfolding main_loop_next [OF False ok]
      using Cons.IH [OF rest, of "snd (loop_body env i line w)"] False ok t
      by (simp add: loop_body_entries loop_body_remote_calls)
  qed
qed

lemma main_loop_sink:
  "records_ok env i lines \<Longrightarrow> sink w = Some c \<Longrightarrow>
   sink (snd (main_loop env i lines w)) = Some (c @ concat (translated env i lines))"
proof (induction lines arbitrary: i w c)
  case Nil
  then show ?case by simp
next
  case (Cons line lines)
  show ?case
  proof (cases "TrimSpace line = []")
    case True
    with Cons show ?thesis by simp
  next
    case False
    with Cons.prems have ok: "failing_stage env i line = None" and rest: "records_ok env (Suc i) lines"
      by simp_all
    from ok obtain t where t: "translate_Text env i line = Inr t"
      using records_ok_translation by blast
    have "sink (snd (loop_body env i line w)) = Some (c @ t @ [CHR 0x0A])"
      using loop_body_sink [OF Cons.prems(2), of env i line] t by simp
    from Cons.IH [OF rest this] show ?thesis
      unfolding main_loop_next [OF False ok]
      using False t by simp
  qed
qed

lemma translated_length:
  "records_ok env i lines \<Longrightarrow>
   length (translated env i lines) = length (filter (\<lambda>l. TrimSpace l \<noteq> []) lines)"
proof (induction lines arbitrary: i)
  case Nil
  then show ?case by simp
next
  case (Cons line lines)
  then show ?case
    using records_ok_translation [of env i line] by (auto split: sum.splits)
qed

subsection \<open>The whole run\<close>

lemma deferred_observed [simp]:
  "sink_entries (deferred env w) = sink_entries w"
  "remote_calls (deferred env w) = remote_calls w"
  by (simp_all add: deferred_def os_Remove_def sink_entries_def remote_calls_def
      split: option.splits)

lemma deferred_removes:
  "remove_output env outputFileName = None \<Longrightarrow> disk (deferred env w) outputFileName = None"
  by (simp add: deferred_def os_Remove_def)

lemma Flush_observed [simp]:
  "sink_entries (Flush w) = sink_entries w" "remote_calls (Flush w) = remote_calls w"
  by (simp_all add: sink_entries_def remote_calls_def)

lemma Flush_sink: "sink w = Some c \<Longrightarrow> disk (Flush w) outputFileName = Some c"
  by (auto simp: sink_def Flush_disk)

text \<open>The state in which the loop starts: the output file created and empty, the buffer empty.\<close>

lemma main_run:
  assumes "getInputText env ''./input.txt'' = Inr textLines"
    and "create_output env outputFileName = None"
  shows "main env w =
    deferred env (write_all env textLines (snd (os_Create None outputFileName w)))"
  using assms by (simp add: main_def os_Create_def)

lemma created_observed [simp]:
  "sink_entries ((snd (os_Create None name w))\<lparr>wbuf := []\<rparr>) = sink_entries w"
  "remote_calls ((snd (os_Create None name w))\<lparr>wbuf := []\<rparr>) = remote_calls w"
  "sink ((snd (os_Create None outputFileName w))\<lparr>wbuf := []\<rparr>) = Some []"
  by (simp_all add: os_Create_def sink_entries_def remote_calls_def sink_def)

lemma WriteString_fits:
  assumes "length s \<le> Available w"
  shows "wbuf (WriteString s w) = wbuf w @ s" and "disk (WriteString s w) = disk w"
  using assms
  by (simp_all add: WriteString_def Available_def bufio_WriteString.simps [of s])

text \<open>An iteration changes the output file and the buffer only by its write to the sink.\<close>

lemma loop_body_writer:
  "disk (snd (loop_body env i line w)) outputFileName =
     (case translate_Text env i line of
        Inl err \<Rightarrow> disk w outputFileName
      | Inr t \<Rightarrow> disk (WriteString (t @ [CHR 0x0A]) (Println ''Translated text:'' t
                  (emit (TranslateCall line ''ja'' ''en'') w))) outputFileName)"
  "wbuf (snd (loop_body env i line w)) =
     (case translate_Text env i line of
        Inl err \<Rightarrow> wbuf w
      | Inr t \<Rightarrow> wbuf (WriteString (t @ [CHR 0x0A]) (Println ''Translated text:'' t
                  (emit (TranslateCall line ''ja'' ''en'') w))))"
  by (rule_tac [!] stage_cases [of env i line]) (simp_all add: step_defs)

lemma write_all_halts_at:
  assumes "records_ok env 0 pre"
    and "TrimSpace line \<noteq> []"
    and "failing_stage env (length pre) line = Some st"
  shows "write_all env (pre @ line # post) w =
      snd (main_loop env 0 (pre @ line # post) (w\<lparr>wbuf := []\<rparr>))"
    and "main_loop env 0 (pre @ line # post) (w\<lparr>wbuf := []\<rparr>) =
      (False, snd (loop_body env (length pre) line (snd (main_loop env 0 pre (w\<lparr>wbuf := []\<rparr>)))))"
proof -
  let ?w1 = "w\<lparr>wbuf := []\<rparr>"
  let ?w2 = "snd (main_loop env 0 pre ?w1)"
  have "fst (main_loop env 0 pre ?w1)"
    using main_loop_ok [OF assms(1), of ?w1] by simp
  then show loop: "main_loop env 0 (pre @ line # post) ?w1 =
      (False, snd (loop_body env (length pre) line ?w2))"
    using main_loop_append [of env 0 pre ?w1 "line # post"]
      main_loop_halt [OF assms(2,3), of post ?w2] by simp
  then show "write_all env (pre @ line # post) w = snd (main_loop env 0 (pre @ line # post) ?w1)"
    by (simp add: write_all_def)
qed

lemma deferred_sink:
  "remove_output env outputFileName = None \<Longrightarrow> sink (deferred env w) = None"
  by (simp add: sink_def deferred_removes)


text \<open>
  Claim C3 as the code has it. When the record of a line fails at the translation step and
  every record before it has succeeded in full, exactly the translations of the records
  before it have been handed to the result sink, one per line that is not blank and in
  input order, and they are the bytes the sink holds (output file and buffer together) when
  the loop stops. The failure path does not flush: the run goes from the loop straight to
  the deferred function, and once that has removed the output file the sink holds nothing.
\<close>

theorem translation_failure_entries_not_kept:
  assumes "getInputText env ''./input.txt'' = Inr (pre @ line # post)"
    and "create_output env outputFileName = None"
    and "records_ok env 0 pre"
    and "TrimSpace line \<noteq> []"
    and "translate_Text env (length pre) line = Inl err"
  shows "sink_entries (main env w) = sink_entries w @ translated env 0 pre \<and>
    length (translated env 0 pre) = length (filter (\<lambda>l. TrimSpace l \<noteq> []) pre) \<and>
    sink (write_all env (pre @ line # post) (snd (os_Create None outputFileName w))) =
      Some (concat (translated env 0 pre)) \<and>
    write_all env (pre @ line # post) (snd (os_Create None outputFileName w)) =
      snd (main_loop env 0 (pre @ line # post)
        ((snd (os_Create None outputFileName w))\<lparr>wbuf := []\<rparr>)) \<and>
    (remove_output env outputFileName = None \<longrightarrow>
       sink (main env w) = None \<and> disk (main env w) outputFileName = None)"
proof -
  let ?w0 = "snd (os_Create None outputFileName w)"
  let ?w1 = "?w0\<lparr>wbuf := []\<rparr>"
  let ?w2 = "snd (main_loop env 0 pre ?w1)"
  let ?w3 = "snd (loop_body env (length pre) line ?w2)"
  have stage: "failing_stage env (length pre) line = Some Translation"
    using assms(5) by (simp add: failing_stage_def)
  note halt = write_all_halts_at [OF assms(3,4) stage, of post ?w0]
  have all: "write_all env (pre @ line # post) ?w0 = ?w3"
    using halt by simp
  have run: "main env w = deferred env ?w3"
    using main_run [OF assms(1,2), of w] all by simp
  have before: "sink_entries ?w2 = sink_entries w @ translated env 0 pre"
    using main_loop_ok [OF assms(3), of ?w1] by simp
  have before_bytes: "sink ?w2 = Some (concat (translated env 0 pre))"
    using main_loop_sink [OF assms(3), of ?w1 "[]"] by simp
  have entries: "sink_entries (main env w) = sink_entries w @ translated env 0 pre"
    unfolding run using before assms(5) by (simp add: loop_body_entries)
  have bytes: "sink ?w3 = Some (concat (translated env 0 pre))"
    using loop_body_sink [OF before_bytes, of env "length pre" line] assms(5) by simp
  have gone: "remove_output env outputFileName = None \<longrightarrow>
      sink (main env w) = None \<and> disk (main env w) outputFileName = None"
    unfolding run by (simp add: deferred_sink deferred_removes)
  show ?thesis
    using entries translated_length [OF assms(3)] bytes halt(1) gone
    unfolding all by simp
qed

lemma nonblank_samples:
  "TrimSpace ''hello'' \<noteq> []" "TrimSpace ''thanks'' \<noteq> []" "TrimSpace ''bye'' \<noteq> []"
  by code_simp+

lemma byte_values: "byte (CHR 0xE3) = 227" "byte (CHR 0x80) = 128"
  by (simp_all add: byte_def)

lemma decode_ideographic_space:
  "DecodeRuneInString [CHR 0xE3, CHR 0x80, CHR 0x80] = (12288, 3)"
  by (simp add: DecodeRuneInString_def byte_values continuation_def)

lemma blank_sample: "TrimSpace [CHR 0xE3, CHR 0x80, CHR 0x80] = []"
  by (simp add: TrimSpace_def TrimLeftSpace.simps TrimRightSpace.simps
      decode_ideographic_space IsSpace_def)

lemmas sample_defs =
  env_ok_def env_three_records_def env_translate_fails_def env_put_fails_def
  env_remove_fails_def env_no_input_def env_read_error_def initial_def reading_def

theorem translation_failure_entries_not_kept_witness:
  "getInputText env_translate_fails ''./input.txt'' = Inr ([''hello''] @ ''thanks'' # [''bye'']) \<and>
   create_output env_translate_fails outputFileName = None \<and>
   records_ok env_translate_fails 0 [''hello''] \<and>
   TrimSpace ''thanks'' \<noteq> [] \<and>
   translate_Text env_translate_fails (length [''hello'']) ''thanks'' =
     Inl (Error ''ThrottlingException'') \<and>
   remove_output env_translate_fails outputFileName = None \<and>
   sink_entries (main env_translate_fails initial) = [''en:hello'' @ [CHR 0x0A]] \<and>
   sink (write_all env_translate_fails ([''hello''] @ ''thanks'' # [''bye''])
          (snd (os_Create None outputFileName initial))) = Some (''en:hello'' @ [CHR 0x0A]) \<and>
   sink (main env_translate_fails initial) = None"
proof -
  have h1: "getInputText env_translate_fails ''./input.txt'' =
      Inr ([''hello''] @ ''thanks'' # [''bye''])"
    by (simp add: getInputText_def sample_defs)
  have h2: "create_output env_translate_fails outputFileName = None"
    by (simp add: sample_defs)
  have h3: "records_ok env_translate_fails 0 [''hello'']"
    by (simp add: nonblank_samples failing_stage_def sample_defs)
  have h4: "TrimSpace ''thanks'' \<noteq> []"
    by (rule nonblank_samples)
  have h5: "translate_Text env_translate_fails (length [''hello'']) ''thanks'' =
      Inl (Error ''ThrottlingException'')"
    by (simp add: sample_defs)
  have h6: "remove_output env_translate_fails outputFileName = None"
    by (simp add: sample_defs)
  have e: "translated env_translate_fails 0 [''hello''] = [''en:hello'' @ [CHR 0x0A]]"
    by (simp add: nonblank_samples sample_defs)
  have i: "sink_entries initial = []"
    by (simp add: sink_entries_def initial_def)
  note t = translation_failure_entries_not_kept [OF h1 h2 h3 h4 h5, of initial, unfolded e i]
  note t1 = t [THEN conjunct1]
  note t3 = t [THEN conjunct2, THEN conjunct2, THEN conjunct1]
  note t5 = t [THEN conjunct2, THEN conjunct2, THEN conjunct2, THEN conjunct2, rule_format,
    OF h6, THEN conjunct1]
  show ?thesis
    using h1 h2 h3 h4 h5 h6 t1 t3 t5 by simp
qed

text \<open>
  Claim C3 fails on the code. In this run the translation of the second of three records
  fails. The first record's entry has been handed to the writer, but it is only in the
  buffer when the loop stops: the output file is empty, the failure path makes no flush, and
  the deferred function removes the file. At the end of the run the sink holds no entry.
\<close>

theorem translation_failure_leaves_no_entry:
  "translate_Text env_translate_fails 1 ''thanks'' = Inl (Error ''ThrottlingException'') \<and>
   wbuf (write_all env_translate_fails [''hello'', ''thanks'', ''bye'']
           (snd (os_Create None outputFileName initial))) = ''en:hello'' @ [CHR 0x0A] \<and>
   disk (write_all env_translate_fails [''hello'', ''thanks'', ''bye'']
           (snd (os_Create None outputFileName initial))) outputFileName = Some [] \<and>
   disk (main env_translate_fails initial) outputFileName = None \<and>
   sink (main env_translate_fails initial) = None"
proof -
  let ?env = env_translate_fails
  let ?w0 = "snd (os_Create None outputFileName initial)"
  let ?w1 = "?w0\<lparr>wbuf := []\<rparr>"
  let ?w2 = "snd (loop_body ?env 0 ''hello'' ?w1)"
  let ?w3 = "snd (loop_body ?env 1 ''thanks'' ?w2)"
  have answer: "translate_Text ?env 1 ''thanks'' = Inl (Error ''ThrottlingException'')"
    by (simp add: sample_defs)
  have first: "translate_Text ?env 0 ''hello'' = Inr ''en:hello''"
    by (simp add: sample_defs)
  have ok: "records_ok ?env 0 [''hello'']"
    by (simp add: nonblank_samples failing_stage_def sample_defs)
  have stage: "failing_stage ?env (length [''hello'']) ''thanks'' = Some Translation"
    by (simp add: failing_stage_def sample_defs)
  have input: "getInputText ?env ''./input.txt'' = Inr ([''hello''] @ ''thanks'' # [''bye''])"
    by (simp add: getInputText_def sample_defs)
  have created: "create_output ?env outputFileName = None"
    "remove_output ?env outputFileName = None"
    by (simp_all add: sample_defs)
  have reached: "failing_stage ?env 0 ''hello'' = None"
    by (simp add: failing_stage_def sample_defs)
  have pre: "snd (main_loop ?env 0 [''hello''] ?w1) = ?w2"
    unfolding main_loop_next [OF nonblank_samples(1) reached] by simp
  note halt = write_all_halts_at [OF ok nonblank_samples(2) stage, of "[''bye'']" ?w0]
  have all: "write_all ?env [''hello'', ''thanks'', ''bye''] ?w0 = ?w3"
    using halt pre by simp
  have run: "main ?env initial = deferred ?env ?w3"
    using main_run [OF input created(1), of initial] all by simp
  have fits: "length (''en:hello'' @ [CHR 0x0A]) \<le>
      Available (Println ''Translated text:'' ''en:hello''
        (emit (TranslateCall ''hello'' ''ja'' ''en'') ?w1))"
    by (simp add: Available_def)
  have buffer: "wbuf ?w3 = ''en:hello'' @ [CHR 0x0A]"
    using answer first WriteString_fits(1) [OF fits]
    by (simp add: loop_body_writer)
  have on_disk: "disk ?w3 outputFileName = Some []"
    using answer first WriteString_fits(2) [OF fits]
    by (simp add: loop_body_writer os_Create_def)
  have gone: "disk (main ?env initial) outputFileName = None"
    "sink (main ?env initial) = None"
    unfolding run using created(2) by (simp_all add: deferred_removes deferred_sink)
  from answer buffer on_disk gone show ?thesis
    unfolding all by simp
qed

text \<open>
  Claim C4. When a step of a record fails (the record being reached, every record before it
  has succeeded), the run stops there: the remote requests of the whole run are those of the
  earlier records followed by the requests of the failing record up to and including the
  failed one (one for a failed translation, two for a failed synthesis, three for a failed
  upload, four for a failed submission), and what the run does after the failing record is
  the deferred removal of the output file, whatever lines follow in the input.
\<close>

theorem failure_halts_run:
  assumes "getInputText env ''./input.txt'' = Inr (pre @ line # post)"
    and "create_output env outputFileName = None"
    and "records_ok env 0 pre"
    and "TrimSpace line \<noteq> []"
    and "failing_stage env (length pre) line = Some st"
  shows "remote_calls (main env w) =
      remote_calls w @ expected_calls env 0 pre @
      take (calls_made st) (record_calls env (length pre) line) \<and>
    main env w =
      deferred env (snd (loop_body env (length pre) line
        (snd (main_loop env 0 pre ((snd (os_Create None outputFileName w))\<lparr>wbuf := []\<rparr>)))))"
proof -
  let ?w1 = "(snd (os_Create None outputFileName w))\<lparr>wbuf := []\<rparr>"
  let ?w2 = "snd (main_loop env 0 pre ?w1)"
  have pre: "fst (main_loop env 0 pre ?w1)"
    "remote_calls ?w2 = remote_calls w @ expected_calls env 0 pre"
    using main_loop_ok [OF assms(3), of ?w1] by simp_all
  have loop: "main_loop env 0 (pre @ line # post) ?w1 =
      (False, snd (loop_body env (length pre) line ?w2))"
    using main_loop_append [OF pre(1), of "line # post"]
      main_loop_halt [OF assms(4,5), of post ?w2] by simp
  have run: "main env w = deferred env (snd (loop_body env (length pre) line ?w2))"
    by (simp add: main_run [OF assms(1,2)] write_all_def loop)
  have "remote_calls (main env w) =
      remote_calls ?w2 @ take (calls_made st) (record_calls env (length pre) line)"
    unfolding run using assms(5) by (simp add: loop_body_remote_calls)
  with pre(2) run show ?thesis by simp
qed

theorem failure_halts_run_witness:
  "getInputText env_translate_fails ''./input.txt'' = Inr ([''hello''] @ ''thanks'' # [''bye'']) \<and>
   create_output env_translate_fails outputFileName = None \<and>
   records_ok env_translate_fails 0 [''hello''] \<and>
   TrimSpace ''thanks'' \<noteq> [] \<and>
   failing_stage env_translate_fails (length [''hello'']) ''thanks'' = Some Translation \<and>
   remote_calls (main env_translate_fails initial) =
     record_calls env_translate_fails 0 ''hello'' @ [TranslateCall ''thanks'' ''ja'' ''en'']"
proof -
  have h1: "getInputText env_translate_fails ''./input.txt'' =
      Inr ([''hello''] @ ''thanks'' # [''bye''])"
    by (simp add: getInputText_def sample_defs)
  have h2: "create_output env_translate_fails outputFileName = None"
    by (simp add: sample_defs)
  have h3: "records_ok env_translate_fails 0 [''hello'']"
    by (simp add: nonblank_samples failing_stage_def sample_defs)
  have h4: "TrimSpace ''thanks'' \<noteq> []"
    by (rule nonblank_samples)
  have h5: "failing_stage env_translate_fails (length [''hello'']) ''thanks'' = Some Translation"
    by (simp add: failing_stage_def sample_defs)
  have c: "expected_calls env_translate_fails 0 [''hello''] =
      record_calls env_translate_fails 0 ''hello''"
    by (simp add: nonblank_samples)
  have r: "take (calls_made Translation) (record_calls env_translate_fails (length [''hello'']) ''thanks'') =
      [TranslateCall ''thanks'' ''ja'' ''en'']"
    by (simp add: record_calls_def Let_def)
  have i: "remote_calls initial = []"
    by (simp add: remote_calls_def initial_def)
  note t = failure_halts_run [OF h1 h2 h3 h4 h5, of initial, THEN conjunct1, unfolded c r i]
  show ?thesis
    using h1 h2 h3 h4 h5 t by simp
qed

text \<open>
  Claim C5. When every step of every record succeeds, the sink receives one entry for each
  line that is not blank, in input order, and the remote requests of the run are those of the
  lines that are not blank, so that a blank line causes no request and no entry. The loop
  ends with the flush: the output file then holds every entry and the buffer is empty. The
  deferred function runs after that, and removes the file when the removal succeeds.
\<close>

theorem all_records_succeed:
  assumes "getInputText env ''./input.txt'' = Inr textLines"
    and "create_output env outputFileName = None"
    and "records_ok env 0 textLines"
  shows "sink_entries (main env w) = sink_entries w @ translated env 0 textLines \<and>
    length (translated env 0 textLines) = length (filter (\<lambda>l. TrimSpace l \<noteq> []) textLines) \<and>
    remote_calls (main env w) = remote_calls w @ expected_calls env 0 textLines \<and>
    disk (write_all env textLines (snd (os_Create None outputFileName w))) outputFileName =
      Some (concat (translated env 0 textLines)) \<and>
    wbuf (write_all env textLines (snd (os_Create None outputFileName w))) = [] \<and>
    main env w = deferred env (write_all env textLines (snd (os_Create None outputFileName w))) \<and>
    (remove_output env outputFileName = None \<longrightarrow> disk (main env w) outputFileName = None)"
proof -
  let ?w1 = "(snd (os_Create None outputFileName w))\<lparr>wbuf := []\<rparr>"
  let ?w2 = "snd (main_loop env 0 textLines ?w1)"
  have loop: "fst (main_loop env 0 textLines ?w1)"
    "sink_entries ?w2 = sink_entries w @ translated env 0 textLines"
    "remote_calls ?w2 = remote_calls w @ expected_calls env 0 textLines"
    using main_loop_ok [OF assms(3), of ?w1] by simp_all
  have bytes: "sink ?w2 = Some (concat (translated env 0 textLines))"
    using main_loop_sink [OF assms(3), of ?w1 "[]"] by simp
  have all: "write_all env textLines (snd (os_Create None outputFileName w)) = Flush ?w2"
    using loop(1) by (cases "main_loop env 0 textLines ?w1") (simp add: write_all_def)
  have run: "main env w =
      deferred env (write_all env textLines (snd (os_Create None outputFileName w)))"
    by (rule main_run [OF assms(1,2)])
  have "sink_entries (main env w) = sink_entries w @ translated env 0 textLines"
    "remote_calls (main env w) = remote_calls w @ expected_calls env 0 textLines"
    unfolding run all using loop(2,3) by simp_all
  moreover have "disk (Flush ?w2) outputFileName = Some (concat (translated env 0 textLines))"
    using bytes by (rule Flush_sink)
  moreover have "remove_output env outputFileName = None \<longrightarrow>
      disk (main env w) outputFileName = None"
    unfolding run by (simp add: deferred_removes)
  ultimately show ?thesis
    using translated_length [OF assms(3)] run all by simp
qed


theorem all_records_succeed_witness:
  "getInputText env_ok ''./input.txt'' =
     Inr [''hello'', [CHR 0xE3, CHR 0x80, CHR 0x80], ''thanks''] \<and>
   create_output env_ok outputFileName = None \<and>
   records_ok env_ok 0 [''hello'', [CHR 0xE3, CHR 0x80, CHR 0x80], ''thanks''] \<and>
   remove_output env_ok outputFileName = None \<and>
   sink_entries (main env_ok initial) = [''en:hello'' @ [CHR 0x0A], ''en:thanks'' @ [CHR 0x0A]] \<and>
   remote_calls (main env_ok initial) =
     record_calls env_ok 0 ''hello'' @ record_calls env_ok 2 ''thanks'' \<and>
   disk (write_all env_ok [''hello'', [CHR 0xE3, CHR 0x80, CHR 0x80], ''thanks'']
           (snd (os_Create None outputFileName initial))) outputFileName =
     Some (''en:hello'' @ [CHR 0x0A] @ ''en:thanks'' @ [CHR 0x0A]) \<and>
   disk (main env_ok initial) outputFileName = None"
proof -
  let ?lines = "[''hello'', [CHR 0xE3, CHR 0x80, CHR 0x80], ''thanks'']"
  have h1: "getInputText env_ok ''./input.txt'' = Inr ?lines"
    by (simp add: getInputText_def sample_defs)
  have h2: "create_output env_ok outputFileName = None"
    by (simp add: sample_defs)
  have h3: "records_ok env_ok 0 ?lines"
    by (simp add: nonblank_samples blank_sample failing_stage_def sample_defs)
  have h4: "remove_output env_ok outputFileName = None"
    by (simp add: sample_defs)
  have e: "translated env_ok 0 ?lines = [''en:hello'' @ [CHR 0x0A], ''en:thanks'' @ [CHR 0x0A]]"
    by (simp add: nonblank_samples blank_sample sample_defs)
  have c: "expected_calls env_ok 0 ?lines =
      record_calls env_ok 0 ''hello'' @ record_calls env_ok 2 ''thanks''"
    by (simp add: nonblank_samples blank_sample numeral_2_eq_2)
  have i: "sink_entries initial = []" "remote_calls initial = []"
    by (simp_all add: sink_entries_def remote_calls_def initial_def)
  note t = all_records_succeed [OF h1 h2 h3, of initial, unfolded e c i]
  note t1 = t [THEN conjunct1]
  note t3 = t [THEN conjunct2, THEN conjunct2, THEN conjunct1]
  note t4 = t [THEN conjunct2, THEN conjunct2, THEN conjunct2, THEN conjunct1]
  note t7 = t [THEN conjunct2, THEN conjunct2, THEN conjunct2, THEN conjunct2, THEN conjunct2,
    THEN conjunct2]
  show ?thesis
    using h1 h2 h3 h4 t1 t3 t4 t7 by simp
qed

subsection \<open>Names, keys and the media URI\<close>

lemma loop_body_creates:
  assumes "translate_Text env i line = Inr t" and "polly_SynthesizeSpeech env i t = Inr stream"
  shows "CreateCall (staging_name env i) \<in> set (events (snd (loop_body env i line w)))"
  using assms
  by (rule_tac stage_cases [of env i line]) (simp_all add: step_defs staging_name_def)

text \<open>
  Claim C8. For a record that reaches the submission step (every earlier step of it has
  succeeded, whatever the submission then answers), the media URI of the transcription
  request is \<^verbatim>\<open>s3://\<close>, the bucket, a slash and the key; the key is the generated audio name,
  which is the key of the record's upload and the name of its local staging file.
\<close>

theorem media_uri_is_bucket_and_key:
  assumes "failing_stage env i line = None \<or> failing_stage env i line = Some Submission"
    and "translate_Text env i line = Inr t"
    and "polly_SynthesizeSpeech env i t = Inr stream"
    and "key = audioFileName (now_audio env i)"
  shows "remote_calls (snd (loop_body env i line w)) =
      remote_calls w @
      [TranslateCall line ''ja'' ''en'',
       SynthesizeCall t ''mp3'' ''Joanna'',
       PutObjectCall bucketName key (stream_bytes stream),
       StartJobCall (transcriptionJobName (now_job env i)) ''en-US'' ''mp3''
         (''s3://'' @ bucketName @ ''/'' @ key) bucketName] \<and>
    CreateCall key \<in> set (events (snd (loop_body env i line w)))"
proof -
  have "record_calls env i line =
      [TranslateCall line ''ja'' ''en'',
       SynthesizeCall t ''mp3'' ''Joanna'',
       PutObjectCall bucketName key (stream_bytes stream),
       StartJobCall (transcriptionJobName (now_job env i)) ''en-US'' ''mp3''
         (''s3://'' @ bucketName @ ''/'' @ key) bucketName]"
    using assms(2,3,4) by (simp add: record_calls_def staging_name_def job_name_def)
  moreover have "remote_calls (snd (loop_body env i line w)) =
      remote_calls w @ record_calls env i line"
    using assms(1) by (auto simp: loop_body_remote_calls record_calls_def Let_def)
  moreover have "CreateCall key \<in> set (events (snd (loop_body env i line w)))"
    using loop_body_creates [OF assms(2,3)] assms(4) by (simp add: staging_name_def)
  ultimately show ?thesis by simp
qed

lemma sample_names:
  "audioFileName (now_audio env_ok 0) = ''audioFile-20240102030405-output.mp3''"
  "transcriptionJobName (now_job env_ok 0) = ''transcription-job-20240102030406''"
  by (simp_all add: audioFileName_def transcriptionJobName_def Format_civil civil_def
      YYYYMMDDHHMMSS_def digits2_def digits4_def digit_def sample_defs)

theorem media_uri_is_bucket_and_key_witness:
  "(failing_stage env_ok 0 ''hello'' = None \<or> failing_stage env_ok 0 ''hello'' = Some Submission) \<and>
   translate_Text env_ok 0 ''hello'' = Inr ''en:hello'' \<and>
   polly_SynthesizeSpeech env_ok 0 ''en:hello'' =
     Inr \<lparr>stream_bytes = ''mp3:en:hello'', copy_err = None\<rparr> \<and>
   ''audioFile-20240102030405-output.mp3'' = audioFileName (now_audio env_ok 0) \<and>
   remote_calls (snd (loop_body env_ok 0 ''hello'' initial)) =
     [TranslateCall ''hello'' ''ja'' ''en'',
      SynthesizeCall ''en:hello'' ''mp3'' ''Joanna'',
      PutObjectCall ''report.3q-aws-s24745201.com'' ''audioFile-20240102030405-output.mp3''
        ''mp3:en:hello'',
      StartJobCall ''transcription-job-20240102030406'' ''en-US'' ''mp3''
        ''s3://report.3q-aws-s24745201.com/audioFile-20240102030405-output.mp3''
        ''report.3q-aws-s24745201.com''] \<and>
   CreateCall ''audioFile-20240102030405-output.mp3'' \<in>
     set (events (snd (loop_body env_ok 0 ''hello'' initial)))"
proof -
  have h1: "failing_stage env_ok 0 ''hello'' = None \<or>
      failing_stage env_ok 0 ''hello'' = Some Submission"
    by (simp add: failing_stage_def sample_defs)
  have h2: "translate_Text env_ok 0 ''hello'' = Inr ''en:hello''"
    by (simp add: sample_defs)
  have h3: "polly_SynthesizeSpeech env_ok 0 ''en:hello'' =
      Inr \<lparr>stream_bytes = ''mp3:en:hello'', copy_err = None\<rparr>"
    by (simp add: sample_defs)
  have h4: "''audioFile-20240102030405-output.mp3'' = audioFileName (now_audio env_ok 0)"
    by (simp add: sample_names)
  have i: "remote_calls initial = []"
    by (simp add: remote_calls_def initial_def)
  note t = media_uri_is_bucket_and_key [OF h1 h2 h3 h4, of initial, unfolded i sample_names]
  show ?thesis
    using h1 h2 h3 h4 t by (simp add: bucketName_def)
qed

subsection \<open>Reading the input\<close>

lemma scan_loop_appends: "scan_loop ts lines = lines @ ts"
  by (induction ts arbitrary: lines) simp_all

text \<open>
  Claim C9. \<^verbatim>\<open>getInputText\<close> returns the lines the scanner delivers, all of them and in file
  order, blank ones included: there is no filter in it. When the file cannot be opened, or
  the scanner stops on a read error, it returns that error; \<^verbatim>\<open>main\<close> then prints it and
  returns, and the run makes no remote request.
\<close>

theorem getInputText_returns_every_line:
  "(os_Open env path = Inr sc \<and> scan_err sc = None \<longrightarrow>
      getInputText env path = Inr (tokens sc)) \<and>
   (os_Open env path = Inl err \<longrightarrow> getInputText env path = Inl err) \<and>
   (os_Open env path = Inr sc \<and> scan_err sc = Some err \<longrightarrow> getInputText env path = Inl err) \<and>
   (getInputText env ''./input.txt'' = Inl err \<longrightarrow>
      main env w = Println ''Error reading input file:'' (error_text err) w \<and>
      remote_calls (main env w) = remote_calls w)"
proof -
  have every_line: "os_Open env path = Inr sc \<and> scan_err sc = None \<longrightarrow>
      getInputText env path = Inr (tokens sc)"
    by (simp add: getInputText_def scan_loop_appends)
  have not_opened: "os_Open env path = Inl err \<longrightarrow> getInputText env path = Inl err"
    by (simp add: getInputText_def)
  have read_error: "os_Open env path = Inr sc \<and> scan_err sc = Some err \<longrightarrow>
      getInputText env path = Inl err"
    by (simp add: getInputText_def)
  have aborts: "getInputText env ''./input.txt'' = Inl err \<longrightarrow>
      main env w = Println ''Error reading input file:'' (error_text err) w \<and>
      remote_calls (main env w) = remote_calls w"
    by (simp add: main_def remote_calls_def)
  from every_line not_opened read_error aborts show ?thesis
    by blast
qed

theorem getInputText_returns_every_line_witness:
  "os_Open env_ok ''./input.txt'' =
     Inr \<lparr>tokens = [''hello'', [CHR 0xE3, CHR 0x80, CHR 0x80], ''thanks''], scan_err = None\<rparr> \<and>
   getInputText env_ok ''./input.txt'' = Inr [''hello'', [CHR 0xE3, CHR 0x80, CHR 0x80], ''thanks''] \<and>
   os_Open env_no_input ''./input.txt'' = Inl (Error ''no such file or directory'') \<and>
   getInputText env_no_input ''./input.txt'' = Inl (Error ''no such file or directory'') \<and>
   remote_calls (main env_no_input initial) = [] \<and>
   os_Open env_read_error ''./input.txt'' =
     Inr \<lparr>tokens = [''hello''], scan_err = Some (Error ''input/output error'')\<rparr> \<and>
   getInputText env_read_error ''./input.txt'' = Inl (Error ''input/output error'') \<and>
   remote_calls (main env_read_error initial) = []"
proof -
  let ?sc = "\<lparr>tokens = [''hello'', [CHR 0xE3, CHR 0x80, CHR 0x80], ''thanks''], scan_err = None\<rparr>"
  let ?bad = "\<lparr>tokens = [''hello''], scan_err = Some (Error ''input/output error'')\<rparr>"
  have o1: "os_Open env_ok ''./input.txt'' = Inr ?sc"
    by (simp add: sample_defs)
  have o2: "os_Open env_no_input ''./input.txt'' = Inl (Error ''no such file or directory'')"
    by (simp add: sample_defs)
  have o3: "os_Open env_read_error ''./input.txt'' = Inr ?bad"
    by (simp add: sample_defs)
  have i: "remote_calls initial = []"
    by (simp add: remote_calls_def initial_def)
  have g1: "getInputText env_ok ''./input.txt'' = Inr (tokens ?sc)"
    using getInputText_returns_every_line [of env_ok "''./input.txt''" ?sc] o1 by simp
  have g2: "getInputText env_no_input ''./input.txt'' = Inl (Error ''no such file or directory'')"
    using getInputText_returns_every_line
      [of env_no_input "''./input.txt''" _ "Error ''no such file or directory''"] o2
    by simp
  have g3: "getInputText env_read_error ''./input.txt'' = Inl (Error ''input/output error'')"
    using getInputText_returns_every_line
      [of env_read_error "''./input.txt''" ?bad "Error ''input/output error''"] o3
    by simp
  note m = getInputText_returns_every_line [THEN conjunct2, THEN conjunct2, THEN conjunct2,
    rule_format, THEN conjunct2]
  have m2: "remote_calls (main env_no_input initial) = []"
    using m [OF g2, of initial] i by simp
  have m3: "remote_calls (main env_read_error initial) = []"
    using m [OF g3, of initial] i by simp
  show ?thesis
    using o1 o2 o3 g1 g2 g3 m2 m3 by simp
qed

subsection \<open>Two readings of the clock\<close>

text \<open>
  Claim C10. The audio name of a record comes from the reading of the clock at line 134 and
  its job name from another reading, at line 176. In the run below the first record's
  staging file is named in second 05 and its job in second 06, so the fourteen digits in the
  key of the upload and in the job name differ.
\<close>

theorem names_from_two_clock_readings:
  "remote_calls (snd (loop_body env_ok 0 ''hello'' initial)) =
     [TranslateCall ''hello'' ''ja'' ''en'',
      SynthesizeCall ''en:hello'' ''mp3'' ''Joanna'',
      PutObjectCall bucketName ''audioFile-20240102030405-output.mp3'' ''mp3:en:hello'',
      StartJobCall ''transcription-job-20240102030406'' ''en-US'' ''mp3''
        (''s3://'' @ bucketName @ ''/audioFile-20240102030405-output.mp3'') bucketName] \<and>
   second (now_audio env_ok 0) = 5 \<and> second (now_job env_ok 0) = 6 \<and>
   YYYYMMDDHHMMSS (now_audio env_ok 0) = ''20240102030405'' \<and>
   YYYYMMDDHHMMSS (now_job env_ok 0) = ''20240102030406''"
proof -
  have "failing_stage env_ok 0 ''hello'' = None"
    by (simp add: failing_stage_def sample_defs)
  then have "remote_calls (snd (loop_body env_ok 0 ''hello'' initial)) =
      remote_calls initial @ record_calls env_ok 0 ''hello''"
    by (simp add: loop_body_remote_calls)
  moreover have "remote_calls initial = []"
    by (simp add: remote_calls_def initial_def)
  moreover have "record_calls env_ok 0 ''hello'' =
     [TranslateCall ''hello'' ''ja'' ''en'',
      SynthesizeCall ''en:hello'' ''mp3'' ''Joanna'',
      PutObjectCall bucketName ''audioFile-20240102030405-output.mp3'' ''mp3:en:hello'',
      StartJobCall ''transcription-job-20240102030406'' ''en-US'' ''mp3''
        (''s3://'' @ bucketName @ ''/audioFile-20240102030405-output.mp3'') bucketName]"
    unfolding record_calls_def staging_name_def job_name_def sample_names
    by (simp add: sample_defs Let_def)
  moreover have "second (now_audio env_ok 0) = 5" "second (now_job env_ok 0) = 6"
    "YYYYMMDDHHMMSS (now_audio env_ok 0) = ''20240102030405''"
    "YYYYMMDDHHMMSS (now_job env_ok 0) = ''20240102030406''"
    by (simp_all add: YYYYMMDDHHMMSS_def digits2_def digits4_def digit_def sample_defs)
  ultimately show ?thesis by simp
qed

subsection \<open>The local staging file\<close>

lemma deferred_frame:
  "s3 (deferred env w) = s3 w"
  "name \<noteq> outputFileName \<Longrightarrow> disk (deferred env w) name = disk w name"
  "events (deferred env w) =
     events w @
     [RemoveCall outputFileName,
      PrintlnCall (case remove_output env outputFileName of
                     None \<Rightarrow> ''Deleted local text file: '' @ outputFileName
                   | Some err \<Rightarrow> ''Error deleting local text file: '' @ error_text err)]"
  by (simp_all add: deferred_def os_Remove_def split: option.splits)

lemma main_halts_at:
  assumes "getInputText env ''./input.txt'' = Inr (pre @ line # post)"
    and "create_output env outputFileName = None"
    and "records_ok env 0 pre"
    and "TrimSpace line \<noteq> []"
    and "failing_stage env (length pre) line = Some st"
  shows "main env w =
      deferred env (snd (loop_body env (length pre) line
        (snd (main_loop env 0 pre ((snd (os_Create None outputFileName w))\<lparr>wbuf := []\<rparr>)))))"
proof -
  let ?w1 = "(snd (os_Create None outputFileName w))\<lparr>wbuf := []\<rparr>"
  let ?w2 = "snd (main_loop env 0 pre ?w1)"
  have "fst (main_loop env 0 pre ?w1)"
    using main_loop_ok [OF assms(3), of ?w1] by simp
  then have "main_loop env 0 (pre @ line # post) ?w1 =
      (False, snd (loop_body env (length pre) line ?w2))"
    using main_loop_append [of env 0 pre ?w1 "line # post"]
      main_loop_halt [OF assms(4,5), of post ?w2] by simp
  then show ?thesis
    by (simp add: main_run [OF assms(1,2)] write_all_def)
qed

text \<open>The record whose upload fails: the staging file stays on the disk, and nothing removes it.\<close>

lemma loop_body_upload_fails:
  assumes "failing_stage env i line = Some Upload"
    and "translate_Text env i line = Inr t"
    and "polly_SynthesizeSpeech env i t = Inr stream"
    and "s3_PutObject env i bucketName (staging_name env i) (stream_bytes stream) = Some err"
  shows "disk (snd (loop_body env i line w)) (staging_name env i) = Some (stream_bytes stream)"
    and "events (snd (loop_body env i line w)) =
      events w @
      [TranslateCall line ''ja'' ''en'',
       PrintlnCall (''Translated text: '' @ t),
       WriteStringCall (t @ [CHR 0x0A]),
       SynthesizeCall t ''mp3'' ''Joanna'',
       CreateCall (staging_name env i),
       PutObjectCall bucketName (staging_name env i) (stream_bytes stream),
       PrintlnCall (''Error synthesizing or uploading audio file: '' @ error_text err)]"
  using assms
  by (rule_tac [!] stage_cases [of env i line])
    (simp_all add: step_defs stage_defs split: if_splits)

text \<open>The record whose upload succeeds and whose staging file cannot be removed.\<close>

lemma loop_body_cleanup_fails:
  assumes "failing_stage env i line = Some Cleanup"
    and "translate_Text env i line = Inr t"
    and "polly_SynthesizeSpeech env i t = Inr stream"
    and "remove_audio env i (staging_name env i) = Some err"
  shows "s3 (snd (loop_body env i line w)) (bucketName, staging_name env i) =
      Some (stream_bytes stream)"
    and "events (snd (loop_body env i line w)) =
      events w @
      [TranslateCall line ''ja'' ''en'',
       PrintlnCall (''Translated text: '' @ t),
       WriteStringCall (t @ [CHR 0x0A]),
       SynthesizeCall t ''mp3'' ''Joanna'',
       CreateCall (staging_name env i),
       PutObjectCall bucketName (staging_name env i) (stream_bytes stream),
       PrintlnCall (''Uploaded audio file to S3: '' @ staging_name env i),
       RemoveCall (staging_name env i),
       PrintlnCall (''Error deleting local audio file: '' @ error_text err),
       PrintlnCall (''Error synthesizing or uploading audio file: '' @ error_text err)]"
  using assms
  by (rule_tac [!] stage_cases [of env i line])
    (simp_all add: step_defs stage_defs split: if_splits)


lemma sample_inputs:
  "getInputText env_put_fails ''./input.txt'' =
     Inr ([] @ ''hello'' # [[CHR 0xE3, CHR 0x80, CHR 0x80], ''thanks''])"
  "getInputText env_remove_fails ''./input.txt'' =
     Inr ([] @ ''hello'' # [[CHR 0xE3, CHR 0x80, CHR 0x80], ''thanks''])"
  by (simp_all add: getInputText_def sample_defs)

lemma sample_staging_names:
  "staging_name env_put_fails 0 = ''audioFile-20240102030405-output.mp3''"
  "staging_name env_remove_fails 0 = ''audioFile-20240102030405-output.mp3''"
  using sample_names(1) by (simp_all add: staging_name_def env_put_fails_def env_remove_fails_def)

text \<open>
  Claim C1, at an input on which the code leaves the staging file behind: the first record's
  upload is refused. \<^verbatim>\<open>synthesizeSpeechAndUpload\<close> returns at line 155, before the removal of
  line 160. At the end of the run the staging file is still on the disk with the audio in
  it; the only file the run has removed is the output file, in the deferred function.
\<close>

theorem staging_file_left_after_failed_upload:
  "s3_PutObject env_put_fails 0 bucketName ''audioFile-20240102030405-output.mp3''
     ''mp3:en:hello'' = Some (Error ''AccessDenied'') \<and>
   disk (main env_put_fails initial) ''audioFile-20240102030405-output.mp3'' =
     Some ''mp3:en:hello'' \<and>
   events (main env_put_fails initial) =
     [CreateCall ''translated_text.txt'',
      TranslateCall ''hello'' ''ja'' ''en'',
      PrintlnCall ''Translated text: en:hello'',
      WriteStringCall (''en:hello'' @ [CHR 0x0A]),
      SynthesizeCall ''en:hello'' ''mp3'' ''Joanna'',
      CreateCall ''audioFile-20240102030405-output.mp3'',
      PutObjectCall bucketName ''audioFile-20240102030405-output.mp3'' ''mp3:en:hello'',
      PrintlnCall ''Error synthesizing or uploading audio file: AccessDenied'',
      RemoveCall ''translated_text.txt'',
      PrintlnCall ''Deleted local text file: translated_text.txt'']"
proof -
  let ?w1 = "(snd (os_Create None outputFileName initial))\<lparr>wbuf := []\<rparr>"
  let ?stream = "\<lparr>stream_bytes = ''mp3:en:hello'', copy_err = None\<rparr>"
  have stage: "failing_stage env_put_fails (length ([] :: string list)) ''hello'' = Some Upload"
    by (simp add: failing_stage_def sample_defs)
  have run: "main env_put_fails initial =
      deferred env_put_fails (snd (loop_body env_put_fails 0 ''hello'' ?w1))"
    using main_halts_at [OF sample_inputs(1) _ _ nonblank_samples(1) stage, of initial]
    by (simp add: sample_defs)
  have answer: "s3_PutObject env_put_fails 0 bucketName
      ''audioFile-20240102030405-output.mp3'' ''mp3:en:hello'' = Some (Error ''AccessDenied'')"
    by (simp add: sample_defs)
  note body = loop_body_upload_fails
    [of env_put_fails 0 "''hello''" "''en:hello''" ?stream "Error ''AccessDenied''" ?w1,
     unfolded sample_staging_names]
  have facts: "failing_stage env_put_fails 0 ''hello'' = Some Upload"
    "translate_Text env_put_fails 0 ''hello'' = Inr ''en:hello''"
    "polly_SynthesizeSpeech env_put_fails 0 ''en:hello'' = Inr ?stream"
    "s3_PutObject env_put_fails 0 bucketName ''audioFile-20240102030405-output.mp3''
       (stream_bytes ?stream) = Some (Error ''AccessDenied'')"
    using stage by (simp_all add: sample_defs)
  have left: "disk (main env_put_fails initial) ''audioFile-20240102030405-output.mp3'' =
      Some ''mp3:en:hello''"
    unfolding run using body(1) [OF facts]
    by (simp add: deferred_frame outputFileName_def)
  have start: "events ?w1 = [CreateCall ''translated_text.txt'']"
    by (simp add: os_Create_def initial_def outputFileName_def)
  have trace: "events (main env_put_fails initial) =
     [CreateCall ''translated_text.txt'',
      TranslateCall ''hello'' ''ja'' ''en'',
      PrintlnCall ''Translated text: en:hello'',
      WriteStringCall (''en:hello'' @ [CHR 0x0A]),
      SynthesizeCall ''en:hello'' ''mp3'' ''Joanna'',
      CreateCall ''audioFile-20240102030405-output.mp3'',
      PutObjectCall bucketName ''audioFile-20240102030405-output.mp3'' ''mp3:en:hello'',
      PrintlnCall ''Error synthesizing or uploading audio file: AccessDenied'',
      RemoveCall ''translated_text.txt'',
      PrintlnCall ''Deleted local text file: translated_text.txt'']"
    unfolding run deferred_frame(3) body(2) [OF facts] start
    by (simp add: outputFileName_def env_put_fails_def env_ok_def)
  from answer left trace show ?thesis by simp
qed

text \<open>
  Claim C2 fails on the code: here the first record's upload succeeds and the removal of its
  staging file is refused. The object is in the store, but the run makes no transcription
  request: its remote requests end with the upload.
\<close>

theorem cleanup_failure_skips_submission:
  "remove_audio env_remove_fails 0 ''audioFile-20240102030405-output.mp3'' =
     Some (Error ''permission denied'') \<and>
   s3 (main env_remove_fails initial) (bucketName, ''audioFile-20240102030405-output.mp3'') =
     Some ''mp3:en:hello'' \<and>
   remote_calls (main env_remove_fails initial) =
     [TranslateCall ''hello'' ''ja'' ''en'',
      SynthesizeCall ''en:hello'' ''mp3'' ''Joanna'',
      PutObjectCall bucketName ''audioFile-20240102030405-output.mp3'' ''mp3:en:hello'']"
proof -
  let ?w1 = "(snd (os_Create None outputFileName initial))\<lparr>wbuf := []\<rparr>"
  have stage: "failing_stage env_remove_fails (length ([] :: string list)) ''hello'' = Some Cleanup"
    by (simp add: failing_stage_def sample_defs)
  have run: "main env_remove_fails initial =
      deferred env_remove_fails (snd (loop_body env_remove_fails 0 ''hello'' ?w1))"
    using main_halts_at [OF sample_inputs(2) _ _ nonblank_samples(1) stage, of initial]
    by (simp add: sample_defs)
  have start: "remote_calls initial = []"
    by (simp add: remote_calls_def initial_def)
  have answer: "remove_audio env_remove_fails 0 ''audioFile-20240102030405-output.mp3'' =
      Some (Error ''permission denied'')"
    by (simp add: sample_defs)
  have "s3 (snd (loop_body env_remove_fails 0 ''hello'' ?w1))
      (bucketName, staging_name env_remove_fails 0) = Some ''mp3:en:hello''"
    using loop_body_cleanup_fails(1) [of env_remove_fails 0 "''hello''" "''en:hello''"
        "\<lparr>stream_bytes = ''mp3:en:hello'', copy_err = None\<rparr>" "Error ''permission denied''"]
      stage
    by (simp add: sample_defs)
  then have stored: "s3 (main env_remove_fails initial)
      (bucketName, ''audioFile-20240102030405-output.mp3'') = Some ''mp3:en:hello''"
    unfolding run sample_staging_names by (simp add: deferred_frame)
  have "record_calls env_remove_fails 0 ''hello'' =
     [TranslateCall ''hello'' ''ja'' ''en'',
      SynthesizeCall ''en:hello'' ''mp3'' ''Joanna'',
      PutObjectCall bucketName ''audioFile-20240102030405-output.mp3'' ''mp3:en:hello'',
      StartJobCall (job_name env_remove_fails 0) ''en-US'' ''mp3''
        (''s3://'' @ bucketName @ ''/'' @ ''audioFile-20240102030405-output.mp3'') bucketName]"
    unfolding record_calls_def sample_staging_names by (simp add: sample_defs Let_def)
  then have "remote_calls (snd (loop_body env_remove_fails 0 ''hello'' ?w1)) =
     [TranslateCall ''hello'' ''ja'' ''en'',
      SynthesizeCall ''en:hello'' ''mp3'' ''Joanna'',
      PutObjectCall bucketName ''audioFile-20240102030405-output.mp3'' ''mp3:en:hello'']"
    using stage start by (simp add: loop_body_remote_calls)
  then have "remote_calls (main env_remove_fails initial) =
     [TranslateCall ''hello'' ''ja'' ''en'',
      SynthesizeCall ''en:hello'' ''mp3'' ''Joanna'',
      PutObjectCall bucketName ''audioFile-20240102030405-output.mp3'' ''mp3:en:hello'']"
    unfolding run by simp
  with answer stored show ?thesis by simp
qed


text \<open>
  Claim C2 as the code has it. When the upload of a record succeeds and the removal of its
  staging file fails, the failure is printed and the object stays in the store, but the
  failure is also returned as an error: the run stops, and its remote requests end with that
  upload, without a transcription request for the record or for any later one.
\<close>

theorem cleanup_failure_aborts_run:
  assumes "getInputText env ''./input.txt'' = Inr (pre @ line # post)"
    and "create_output env outputFileName = None"
    and "records_ok env 0 pre"
    and "TrimSpace line \<noteq> []"
    and "failing_stage env (length pre) line = Some Cleanup"
    and "translate_Text env (length pre) line = Inr t"
    and "polly_SynthesizeSpeech env (length pre) t = Inr stream"
    and "remove_audio env (length pre) (staging_name env (length pre)) = Some err"
  shows "s3 (main env w) (bucketName, staging_name env (length pre)) = Some (stream_bytes stream) \<and>
    PrintlnCall (''Error deleting local audio file: '' @ error_text err) \<in> set (events (main env w)) \<and>
    remote_calls (main env w) =
      remote_calls w @ expected_calls env 0 pre @
      [TranslateCall line ''ja'' ''en'',
       SynthesizeCall t ''mp3'' ''Joanna'',
       PutObjectCall bucketName (staging_name env (length pre)) (stream_bytes stream)]"
proof -
  let ?w1 = "(snd (os_Create None outputFileName w))\<lparr>wbuf := []\<rparr>"
  let ?w2 = "snd (main_loop env 0 pre ?w1)"
  let ?w3 = "snd (loop_body env (length pre) line ?w2)"
  have run: "main env w = deferred env ?w3"
    by (rule main_halts_at [OF assms(1-5)])
  have before: "remote_calls ?w2 = remote_calls w @ expected_calls env 0 pre"
    using main_loop_ok [OF assms(3), of ?w1] by simp
  have stored: "s3 ?w3 (bucketName, staging_name env (length pre)) = Some (stream_bytes stream)"
    by (rule loop_body_cleanup_fails(1) [OF assms(5-8)])
  have printed: "PrintlnCall (''Error deleting local audio file: '' @ error_text err) \<in>
      set (events ?w3)"
    by (simp add: loop_body_cleanup_fails(2) [OF assms(5-8)])
  have "record_calls env (length pre) line =
      [TranslateCall line ''ja'' ''en'',
       SynthesizeCall t ''mp3'' ''Joanna'',
       PutObjectCall bucketName (staging_name env (length pre)) (stream_bytes stream),
       StartJobCall (job_name env (length pre)) ''en-US'' ''mp3''
         (''s3://'' @ bucketName @ ''/'' @ staging_name env (length pre)) bucketName]"
    using assms(6,7) by (simp add: record_calls_def)
  then have calls: "remote_calls ?w3 =
      remote_calls ?w2 @
      [TranslateCall line ''ja'' ''en'',
       SynthesizeCall t ''mp3'' ''Joanna'',
       PutObjectCall bucketName (staging_name env (length pre)) (stream_bytes stream)]"
    using assms(5) by (simp add: loop_body_remote_calls)
  show ?thesis
    unfolding run using stored printed calls before
    by (simp add: deferred_frame)
qed

theorem cleanup_failure_aborts_run_witness:
  "getInputText env_remove_fails ''./input.txt'' =
     Inr ([] @ ''hello'' # [[CHR 0xE3, CHR 0x80, CHR 0x80], ''thanks'']) \<and>
   create_output env_remove_fails outputFileName = None \<and>
   records_ok env_remove_fails 0 [] \<and>
   TrimSpace ''hello'' \<noteq> [] \<and>
   failing_stage env_remove_fails (length ([] :: string list)) ''hello'' = Some Cleanup \<and>
   translate_Text env_remove_fails (length ([] :: string list)) ''hello'' = Inr ''en:hello'' \<and>
   polly_SynthesizeSpeech env_remove_fails (length ([] :: string list)) ''en:hello'' =
     Inr \<lparr>stream_bytes = ''mp3:en:hello'', copy_err = None\<rparr> \<and>
   remove_audio env_remove_fails (length ([] :: string list))
     (staging_name env_remove_fails (length ([] :: string list))) =
     Some (Error ''permission denied'') \<and>
   s3 (main env_remove_fails initial) (bucketName, staging_name env_remove_fails 0) =
     Some ''mp3:en:hello'' \<and>
   PrintlnCall ''Error deleting local audio file: permission denied'' \<in>
     set (events (main env_remove_fails initial)) \<and>
   remote_calls (main env_remove_fails initial) =
     [TranslateCall ''hello'' ''ja'' ''en'',
      SynthesizeCall ''en:hello'' ''mp3'' ''Joanna'',
      PutObjectCall bucketName (staging_name env_remove_fails 0) ''mp3:en:hello'']"
proof -
  have h2: "create_output env_remove_fails outputFileName = None"
    by (simp add: sample_defs)
  have h3: "records_ok env_remove_fails 0 []"
    by simp
  have h5: "failing_stage env_remove_fails (length ([] :: string list)) ''hello'' = Some Cleanup"
    by (simp add: failing_stage_def sample_defs)
  have h6: "translate_Text env_remove_fails (length ([] :: string list)) ''hello'' =
      Inr ''en:hello''"
    by (simp add: sample_defs)
  have h7: "polly_SynthesizeSpeech env_remove_fails (length ([] :: string list)) ''en:hello'' =
      Inr \<lparr>stream_bytes = ''mp3:en:hello'', copy_err = None\<rparr>"
    by (simp add: sample_defs)
  have h8: "remove_audio env_remove_fails (length ([] :: string list))
      (staging_name env_remove_fails (length ([] :: string list))) =
      Some (Error ''permission denied'')"
    by (simp add: sample_defs)
  have i: "remote_calls initial = []"
    by (simp add: remote_calls_def initial_def)
  note t = cleanup_failure_aborts_run
    [OF sample_inputs(2) h2 h3 nonblank_samples(1) h5 h6 h7 h8, of initial, unfolded i]
  show ?thesis
    using sample_inputs(2) h2 h3 nonblank_samples(1) h5 h6 h7 h8 t by simp
qed

end
